theory Spec2Isabelle
  imports Main "HOL-Library.Word" "HOL-Library.Multiset" "HOL-Library.Sublist"
begin

section \<open>The repository subsystem of luet: data model\<close>

text \<open>
  The development follows \<^verbatim>\<open>pkg/installer/repository.go\<close> and the registry
  generator that comes with it. Go's \<^verbatim>\<open>int\<close> is a 64-bit signed integer: it is a
  \<open>64 word\<close> here, compared with the signed order \<open><s\<close>, and \<^verbatim>\<open>++\<close> wraps.
  An \<^verbatim>\<open>error\<close> value is either made by \<^verbatim>\<open>errors.New\<close> or wraps another one
  (\<^verbatim>\<open>errors.Wrap\<close>); errors that come from a collaborator outside the file are
  \<open>Error\<close> values chosen by that collaborator.
\<close>

datatype error = Error string | Wrap error string

definition REPOSITORY_METAFILE :: string where
  "REPOSITORY_METAFILE = ''repository.meta.yaml''"

definition REPOSITORY_SPECFILE :: string where
  "REPOSITORY_SPECFILE = ''repository.yaml''"

definition REPOFILE_TREE_KEY :: string where
  "REPOFILE_TREE_KEY = ''tree''"

definition REPOFILE_COMPILER_TREE_KEY :: string where
  "REPOFILE_COMPILER_TREE_KEY = ''compilertree''"

definition REPOFILE_META_KEY :: string where
  "REPOFILE_META_KEY = ''meta''"

definition DiskRepositoryType :: string where
  "DiskRepositoryType = ''disk''"

definition HttpRepositoryType :: string where
  "HttpRepositoryType = ''http''"

definition DockerRepositoryType :: string where
  "DockerRepositoryType = ''docker''"

record LuetRepositoryFile =
  FileName :: string
  CompressionType :: string
  Checksums :: "string \<rightharpoonup> string"

text \<open>
  Packages (\<^verbatim>\<open>pkg.Package\<close>) are an interface of another package of the program: the
  type of packages is a parameter \<open>'p\<close>, and the methods used here
  (\<^verbatim>\<open>GetFingerPrint\<close>, \<^verbatim>\<open>IsSelector\<close>, \<^verbatim>\<open>Matches\<close>) are parameters of the
  functions that call them. A package database (\<^verbatim>\<open>pkg.PackageDatabase\<close>, reached
  through \<^verbatim>\<open>GetTree().GetDatabase()\<close>) is the record of its query results; a query
  that returns a Go error is \<open>Inl\<close>.
\<close>

record 'p PackageDatabase =
  db_World :: "'p list"
  FindPackage :: "'p \<Rightarrow> error + 'p"
  FindPackageCandidate :: "'p \<Rightarrow> error + 'p"
  FindPackageMatch :: "string \<Rightarrow> error + 'p list"
  FindPackageLabel :: "string \<Rightarrow> error + 'p list"
  FindPackageLabelMatch :: "string \<Rightarrow> error + 'p list"

text \<open>
  An entry of the artifact index: the path of the archive, the package of its compile
  spec and the files the package installs.
\<close>

record 'p PackageArtifact =
  Path :: string
  CompileSpec_Package :: 'p
  Files :: "string list"

text \<open>
  \<^verbatim>\<open>config.LuetRepository\<close>, which \<^verbatim>\<open>LuetSystemRepository\<close> embeds, is declared
  in another package of the program; its fields are the ones the file reads and writes.
  The backend of a repository is passed to the generator functions explicitly.
\<close>

record LuetRepository =
  Name :: string
  Description :: string
  Urls :: "string list"
  Type :: string
  Priority :: "64 word"
  Enable :: bool
  Cached :: bool
  Authentication :: "string \<rightharpoonup> string"
  TreePath :: string
  MetaPath :: string
  Revision :: "64 word"
  LastUpdate :: string
  Verify :: bool

record 'p LuetSystemRepository = LuetRepository +
  Index :: "'p PackageArtifact list"
  BuildTree :: "'p PackageDatabase option"
  Tree :: "'p PackageDatabase"
  RepositoryFiles :: "string \<rightharpoonup> LuetRepositoryFile"
  PushImages :: bool
  ForcePush :: bool
  repo_imagePrefix :: string

type_synonym 'p Repositories = "'p LuetSystemRepository list"

definition GetPriority :: "'p LuetSystemRepository \<Rightarrow> 64 word" where
  "GetPriority r = Priority r"

definition GetTree :: "'p LuetSystemRepository \<Rightarrow> 'p PackageDatabase" where
  "GetTree r = Tree r"

definition GetIndex :: "'p LuetSystemRepository \<Rightarrow> 'p PackageArtifact list" where
  "GetIndex r = Index r"

section \<open>The aggregator\<close>

subsection \<open>The sort interface and \<^verbatim>\<open>sort.Sort\<close>\<close>

definition Len :: "'p Repositories \<Rightarrow> nat" where
  "Len r = length r"

definition Swap :: "'p Repositories \<Rightarrow> nat \<Rightarrow> nat \<Rightarrow> 'p Repositories" where
  "Swap r i j = r[i := r ! j, j := r ! i]"

definition Less :: "'p Repositories \<Rightarrow> nat \<Rightarrow> nat \<Rightarrow> bool" where
  "Less r i j = (GetPriority (r ! i) <s GetPriority (r ! j))"

text \<open>
  \<^verbatim>\<open>sort.Sort\<close> belongs to Go's standard library and works on the collection only
  through \<open>Len\<close>, \<open>Less\<close> and \<open>Swap\<close>. It is modelled by the library's insertion
  sort (the whole algorithm for a collection of at most twelve elements since Go 1.19):
  \<^verbatim>\<open>
  for i := a + 1; i < b; i++ {
      for j := i; j > a && data.Less(j, j-1); j-- { data.Swap(j, j-1) }
  }
  \<close>
  The library promises a sorted permutation and no stability; what is proved below
  about the order of repositories of equal priority holds for this algorithm.
\<close>

fun insertionSort_inner :: "'p Repositories \<Rightarrow> nat \<Rightarrow> 'p Repositories" where
  "insertionSort_inner data 0 = data"
| "insertionSort_inner data (Suc j) =
     (if Less data (Suc j) j then insertionSort_inner (Swap data (Suc j) j) j else data)"

function insertionSort :: "'p Repositories \<Rightarrow> nat \<Rightarrow> nat \<Rightarrow> 'p Repositories" where
  "insertionSort data i b =
     (if i < b then insertionSort (insertionSort_inner data i) (Suc i) b else data)"
  by pat_completeness auto
termination
  by (relation "measure (\<lambda>(data, i, b). b - i)") auto

declare insertionSort.simps [simp del]

definition sort_Sort :: "'p Repositories \<Rightarrow> 'p Repositories" where
  "sort_Sort data = (let n = Len data in insertionSort data 1 n)"

subsection \<open>World\<close>

text \<open>
  \<^verbatim>\<open>cache\<close> is a Go map from fingerprint to package. It is an association list
  with one entry for each key, a new key being added at the end; the final loop of
  \<open>World\<close> ranges over the map in an order Go leaves open, and the model lists the
  values in the order of the association list.
\<close>

fun cache_put :: "string \<Rightarrow> 'p \<Rightarrow> (string \<times> 'p) list \<Rightarrow> (string \<times> 'p) list" where
  "cache_put k v [] = [(k, v)]"
| "cache_put k v ((k', v') # c) =
     (if k' = k then (k, v) # c else (k', v') # cache_put k v c)"

fun World_inner :: "('p \<Rightarrow> string) \<Rightarrow> 'p list \<Rightarrow> (string \<times> 'p) list \<Rightarrow> (string \<times> 'p) list" where
  "World_inner GetFingerPrint [] cache = cache"
| "World_inner GetFingerPrint (p # ps) cache =
     World_inner GetFingerPrint ps (cache_put (GetFingerPrint p) p cache)"

text \<open>The loop \<^verbatim>\<open>for i := len(r) - 1; i >= 0; i--\<close>; the argument is \<open>i + 1\<close>.\<close>

fun World_outer ::
  "('p \<Rightarrow> string) \<Rightarrow> 'p Repositories \<Rightarrow> nat \<Rightarrow> (string \<times> 'p) list \<Rightarrow> (string \<times> 'p) list" where
  "World_outer GetFingerPrint r 0 cache = cache"
| "World_outer GetFingerPrint r (Suc i) cache =
     World_outer GetFingerPrint r i
       (World_inner GetFingerPrint (db_World (GetTree (r ! i))) cache)"

definition World_cache :: "('p \<Rightarrow> string) \<Rightarrow> 'p Repositories \<Rightarrow> (string \<times> 'p) list" where
  "World_cache GetFingerPrint r = World_outer GetFingerPrint r (length r) []"

definition World :: "('p \<Rightarrow> string) \<Rightarrow> 'p Repositories \<Rightarrow> 'p list" where
  "World GetFingerPrint r = map snd (World_cache GetFingerPrint r)"

subsection \<open>PackageMatches\<close>

record 'p PackageMatch =
  Repo :: "'p LuetSystemRepository"
  Artifact :: "'p PackageArtifact option"
  Package :: 'p

text \<open>
  The methods of \<^verbatim>\<open>Repositories\<close> have a slice receiver: \<^verbatim>\<open>sort.Sort(re)\<close>
  swaps the elements of the array the caller's slice points to. Each function below
  returns the collection as the caller sees it after the call, next to the result.
\<close>

fun PackageMatches_repos ::
  "'p Repositories \<Rightarrow> 'p \<Rightarrow> 'p PackageMatch list \<Rightarrow> 'p PackageMatch list" where
  "PackageMatches_repos [] pack matches = matches"
| "PackageMatches_repos (r # re) pack matches =
     (case FindPackage (GetTree r) pack of
        Inr c \<Rightarrow> matches @ [\<lparr>Repo = r, Artifact = None, Package = c\<rparr>]
      | Inl err \<Rightarrow> PackageMatches_repos re pack matches)"

fun PackageMatches_packages ::
  "'p Repositories \<Rightarrow> 'p list \<Rightarrow> 'p PackageMatch list \<Rightarrow> 'p PackageMatch list" where
  "PackageMatches_packages re [] matches = matches"
| "PackageMatches_packages re (pack # p) matches =
     PackageMatches_packages re p (PackageMatches_repos re pack matches)"

definition PackageMatches ::
  "'p Repositories \<Rightarrow> 'p list \<Rightarrow> 'p Repositories \<times> 'p PackageMatch list" where
  "PackageMatches re p =
     (let re' = sort_Sort re in (re', PackageMatches_packages re' p []))"

subsection \<open>ResolveSelectors\<close>

text \<open>
  The loop labelled \<^verbatim>\<open>REPOSITORY\<close>, for one requested package: a candidate ends
  it (\<^verbatim>\<open>continue PACKAGE\<close>), an error goes on to the next repository, and the
  branch of a package that is no selector appends and goes on to the next repository.
\<close>

fun ResolveSelectors_repos ::
  "('p \<Rightarrow> bool) \<Rightarrow> 'p Repositories \<Rightarrow> 'p \<Rightarrow> 'p list \<Rightarrow> 'p list" where
  "ResolveSelectors_repos IsSelector [] pack matches = matches"
| "ResolveSelectors_repos IsSelector (r # re) pack matches =
     (if IsSelector pack then
        (case FindPackageCandidate (GetTree r) pack of
           Inl err \<Rightarrow> ResolveSelectors_repos IsSelector re pack matches
         | Inr c \<Rightarrow> matches @ [c])
      else ResolveSelectors_repos IsSelector re pack (matches @ [pack]))"

fun ResolveSelectors_packages ::
  "('p \<Rightarrow> bool) \<Rightarrow> 'p Repositories \<Rightarrow> 'p list \<Rightarrow> 'p list \<Rightarrow> 'p list" where
  "ResolveSelectors_packages IsSelector re [] matches = matches"
| "ResolveSelectors_packages IsSelector re (pack # p) matches =
     ResolveSelectors_packages IsSelector re p
       (ResolveSelectors_repos IsSelector re pack matches)"

definition ResolveSelectors ::
  "('p \<Rightarrow> bool) \<Rightarrow> 'p Repositories \<Rightarrow> 'p list \<Rightarrow> 'p Repositories \<times> 'p list" where
  "ResolveSelectors IsSelector re p =
     (let re' = sort_Sort re in (re', ResolveSelectors_packages IsSelector re' p []))"

subsection \<open>Search\<close>

text \<open>
  \<^verbatim>\<open>LuetSearchModeType\<close> is an \<^verbatim>\<open>int\<close> with four named values. A compiled
  regular expression is the predicate \<^verbatim>\<open>MatchString\<close>; \<^verbatim>\<open>regexp.Compile\<close> is
  a parameter.
\<close>

definition SLabel :: "64 word" where "SLabel = 0"
definition SRegexPkg :: "64 word" where "SRegexPkg = 1"
definition SRegexLabel :: "64 word" where "SRegexLabel = 2"
definition FileSearch :: "64 word" where "FileSearch = 3"

fun FileSearch_files :: "(string \<Rightarrow> bool) \<Rightarrow> string list \<Rightarrow> bool" where
  "FileSearch_files reg [] = False"
| "FileSearch_files reg (f # fs) = (if reg f then True else FileSearch_files reg fs)"

fun FileSearch_artifacts ::
  "(string \<Rightarrow> bool) \<Rightarrow> 'p PackageArtifact list \<Rightarrow> 'p list \<Rightarrow> 'p list" where
  "FileSearch_artifacts reg [] matches = matches"
| "FileSearch_artifacts reg (a # as) matches =
     FileSearch_artifacts reg as
       (if FileSearch_files reg (Files a) then matches @ [CompileSpec_Package a] else matches)"

definition LuetSystemRepository_FileSearch ::
  "(string \<Rightarrow> error + (string \<Rightarrow> bool)) \<Rightarrow> 'p LuetSystemRepository \<Rightarrow> string \<Rightarrow> error + 'p list" where
  "LuetSystemRepository_FileSearch regexp_Compile r pattern =
     (case regexp_Compile pattern of
        Inl err \<Rightarrow> Inl err
      | Inr reg \<Rightarrow> Inr (FileSearch_artifacts reg (GetIndex r) []))"

fun SearchArtefact_loop ::
  "('p \<Rightarrow> 'p \<Rightarrow> bool) \<Rightarrow> 'p PackageArtifact list \<Rightarrow> 'p \<Rightarrow> error + 'p PackageArtifact" where
  "SearchArtefact_loop Matches [] p = Inl (Error ''Not found'')"
| "SearchArtefact_loop Matches (a # as) p =
     (if Matches (CompileSpec_Package a) p then Inr a else SearchArtefact_loop Matches as p)"

definition SearchArtefact ::
  "('p \<Rightarrow> 'p \<Rightarrow> bool) \<Rightarrow> 'p LuetSystemRepository \<Rightarrow> 'p \<Rightarrow> error + 'p PackageArtifact" where
  "SearchArtefact Matches r p = SearchArtefact_loop Matches (GetIndex r) p"

text \<open>
  One round of the loop of \<^verbatim>\<open>SearchPackages\<close>. For a mode outside the four
  named ones no branch of the \<^verbatim>\<open>switch\<close> runs, \<^verbatim>\<open>repoMatches\<close> stays empty and
  nothing is added.
\<close>

definition SearchPackages_repo ::
  "(string \<Rightarrow> error + (string \<Rightarrow> bool)) \<Rightarrow> ('p \<Rightarrow> 'p \<Rightarrow> bool) \<Rightarrow> string \<Rightarrow> 64 word \<Rightarrow>
   'p LuetSystemRepository \<Rightarrow> 'p PackageMatch list" where
  "SearchPackages_repo regexp_Compile Matches p t r =
     (let res =
        (if t = SRegexPkg then FindPackageMatch (GetTree r) p
         else if t = SLabel then FindPackageLabel (GetTree r) p
         else if t = SRegexLabel then FindPackageLabelMatch (GetTree r) p
         else if t = FileSearch then LuetSystemRepository_FileSearch regexp_Compile r p
         else Inr [])
      in case res of
           Inl err \<Rightarrow> []
         | Inr repoMatches \<Rightarrow>
             map (\<lambda>pack.
                    \<lparr>Repo = r,
                     Artifact = (case SearchArtefact Matches r pack of
                                   Inl err \<Rightarrow> None | Inr a \<Rightarrow> Some a),
                     Package = pack\<rparr>) repoMatches)"

fun SearchPackages_repos ::
  "(string \<Rightarrow> error + (string \<Rightarrow> bool)) \<Rightarrow> ('p \<Rightarrow> 'p \<Rightarrow> bool) \<Rightarrow> string \<Rightarrow> 64 word \<Rightarrow>
   'p Repositories \<Rightarrow> 'p PackageMatch list \<Rightarrow> 'p PackageMatch list" where
  "SearchPackages_repos regexp_Compile Matches p t [] matches = matches"
| "SearchPackages_repos regexp_Compile Matches p t (r # re) matches =
     SearchPackages_repos regexp_Compile Matches p t re
       (matches @ SearchPackages_repo regexp_Compile Matches p t r)"

definition SearchPackages ::
  "(string \<Rightarrow> error + (string \<Rightarrow> bool)) \<Rightarrow> ('p \<Rightarrow> 'p \<Rightarrow> bool) \<Rightarrow> 'p Repositories \<Rightarrow> string \<Rightarrow>
   64 word \<Rightarrow> 'p Repositories \<times> 'p PackageMatch list" where
  "SearchPackages regexp_Compile Matches re p t =
     (let re' = sort_Sort re in (re', SearchPackages_repos regexp_Compile Matches p t re' []))"

subsection \<open>Two helpers for the proofs and the examples\<close>

text \<open>
  What one run of the inner loop of the insertion sort does, told on the part of the
  collection before position \<open>j\<close> read backwards: the element walks over every
  neighbour of strictly greater priority value.
\<close>

fun settle :: "'p LuetSystemRepository \<Rightarrow> 'p Repositories \<Rightarrow> 'p Repositories" where
  "settle x [] = [x]"
| "settle x (z # zs) =
     (if GetPriority x <s GetPriority z then z # settle x zs else x # z # zs)"

text \<open>
  A database with the given packages and the given answer to
  \<^verbatim>\<open>FindPackageCandidate\<close>, and a repository with a name, a priority and a database.
\<close>

definition example_db :: "'p list \<Rightarrow> ('p \<Rightarrow> error + 'p) \<Rightarrow> 'p PackageDatabase" where
  "example_db ps candidate =
     \<lparr>db_World = ps,
      FindPackage = (\<lambda>p. if p \<in> set ps then Inr p else Inl (Error ''not found'')),
      FindPackageCandidate = candidate,
      FindPackageMatch = (\<lambda>s. Inr []),
      FindPackageLabel = (\<lambda>s. Inr []),
      FindPackageLabelMatch = (\<lambda>s. Inr [])\<rparr>"

definition example_repo ::
  "string \<Rightarrow> 64 word \<Rightarrow> 'p PackageDatabase \<Rightarrow> 'p LuetSystemRepository" where
  "example_repo n prio db =
     \<lparr>Name = n, Description = [], Urls = [], Type = DiskRepositoryType, Priority = prio,
      Enable = True, Cached = False, Authentication = Map.empty, TreePath = [],
      MetaPath = [], Revision = 0, LastUpdate = [], Verify = False, Index = [],
      BuildTree = None, Tree = db, RepositoryFiles = Map.empty, PushImages = False,
      ForcePush = False, repo_imagePrefix = []\<rparr>"

section \<open>Descriptors, spec documents and the disk\<close>

subsection \<open>Accessors\<close>

definition GetName :: "'p LuetSystemRepository \<Rightarrow> string" where
  "GetName r = Name r"

definition GetType :: "'p LuetSystemRepository \<Rightarrow> string" where
  "GetType r = Type r"

definition GetVerify :: "'p LuetSystemRepository \<Rightarrow> bool" where
  "GetVerify r = Verify r"

definition GetUrls :: "'p LuetSystemRepository \<Rightarrow> string list" where
  "GetUrls r = Urls r"

definition GetAuthentication :: "'p LuetSystemRepository \<Rightarrow> (string \<rightharpoonup> string)" where
  "GetAuthentication r = Authentication r"

definition GetTreePath :: "'p LuetSystemRepository \<Rightarrow> string" where
  "GetTreePath r = TreePath r"

definition GetMetaPath :: "'p LuetSystemRepository \<Rightarrow> string" where
  "GetMetaPath r = MetaPath r"

definition GetRevision :: "'p LuetSystemRepository \<Rightarrow> 64 word" where
  "GetRevision r = Revision r"

definition GetLastUpdate :: "'p LuetSystemRepository \<Rightarrow> string" where
  "GetLastUpdate r = LastUpdate r"

definition SetPriority :: "'p LuetSystemRepository \<Rightarrow> 64 word \<Rightarrow> 'p LuetSystemRepository" where
  "SetPriority r n = r\<lparr>Priority := n\<rparr>"

definition SetType :: "'p LuetSystemRepository \<Rightarrow> string \<Rightarrow> 'p LuetSystemRepository" where
  "SetType r p = r\<lparr>Type := p\<rparr>"

definition SetVerify :: "'p LuetSystemRepository \<Rightarrow> bool \<Rightarrow> 'p LuetSystemRepository" where
  "SetVerify r p = r\<lparr>Verify := p\<rparr>"

definition SetName :: "'p LuetSystemRepository \<Rightarrow> string \<Rightarrow> 'p LuetSystemRepository" where
  "SetName r p = r\<lparr>Name := p\<rparr>"

definition SetUrls :: "'p LuetSystemRepository \<Rightarrow> string list \<Rightarrow> 'p LuetSystemRepository" where
  "SetUrls r urls = r\<lparr>Urls := urls\<rparr>"

definition SetAuthentication ::
  "'p LuetSystemRepository \<Rightarrow> (string \<rightharpoonup> string) \<Rightarrow> 'p LuetSystemRepository" where
  "SetAuthentication r auth = r\<lparr>Authentication := auth\<rparr>"

definition SetTreePath :: "'p LuetSystemRepository \<Rightarrow> string \<Rightarrow> 'p LuetSystemRepository" where
  "SetTreePath r p = r\<lparr>TreePath := p\<rparr>"

definition SetTree ::
  "'p LuetSystemRepository \<Rightarrow> 'p PackageDatabase \<Rightarrow> 'p LuetSystemRepository" where
  "SetTree r b = r\<lparr>Tree := b\<rparr>"

definition SetIndex ::
  "'p LuetSystemRepository \<Rightarrow> 'p PackageArtifact list \<Rightarrow> 'p LuetSystemRepository" where
  "SetIndex r i = r\<lparr>Index := i\<rparr>"

definition IncrementRevision :: "'p LuetSystemRepository \<Rightarrow> 'p LuetSystemRepository" where
  "IncrementRevision r = r\<lparr>Revision := Revision r + 1\<rparr>"

definition GetFileName :: "LuetRepositoryFile \<Rightarrow> string" where
  "GetFileName f = FileName f"

definition GetCompressionType :: "LuetRepositoryFile \<Rightarrow> string" where
  "GetCompressionType f = CompressionType f"

definition GetChecksums :: "LuetRepositoryFile \<Rightarrow> (string \<rightharpoonup> string)" where
  "GetChecksums f = Checksums f"

definition SetFileName :: "LuetRepositoryFile \<Rightarrow> string \<Rightarrow> LuetRepositoryFile" where
  "SetFileName f n = f\<lparr>FileName := n\<rparr>"

definition SetChecksums :: "LuetRepositoryFile \<Rightarrow> (string \<rightharpoonup> string) \<Rightarrow> LuetRepositoryFile" where
  "SetChecksums f c = f\<lparr>Checksums := c\<rparr>"

text \<open>
  \<^verbatim>\<open>GetRepositoryFile\<close> returns the entry of the manifest, or an error next to the
  zero value of \<^verbatim>\<open>LuetRepositoryFile\<close> when the key is absent.
\<close>

definition zero_LuetRepositoryFile :: LuetRepositoryFile where
  "zero_LuetRepositoryFile = \<lparr>FileName = [], CompressionType = [], Checksums = Map.empty\<rparr>"

definition GetRepositoryFile ::
  "'p LuetSystemRepository \<Rightarrow> string \<Rightarrow> LuetRepositoryFile \<times> error option" where
  "GetRepositoryFile r name =
     (case RepositoryFiles r name of
        Some ans \<Rightarrow> (ans, None)
      | None \<Rightarrow> (zero_LuetRepositoryFile,
                 Some (Error (''Repository file '' @ name @ '' not found!''))))"

definition SetRepositoryFile ::
  "'p LuetSystemRepository \<Rightarrow> string \<Rightarrow> LuetRepositoryFile \<Rightarrow> 'p LuetSystemRepository" where
  "SetRepositoryFile r name f = r\<lparr>RepositoryFiles := (RepositoryFiles r)(name \<mapsto> f)\<rparr>"

subsection \<open>The spec document\<close>

record LuetSystemRepositorySerialized =
  ser_Name :: string
  ser_Description :: string
  ser_Urls :: "string list"
  ser_Priority :: "64 word"
  ser_Type :: string
  ser_Revision :: "64 word"
  ser_LastUpdate :: string
  ser_TreePath :: string
  ser_MetaPath :: string
  ser_RepositoryFiles :: "string \<rightharpoonup> LuetRepositoryFile"
  ser_Verify :: bool

record 'p LuetSystemRepositoryMetadata =
  meta_Index :: "'p PackageArtifact list"

text \<open>
  The YAML library is outside the program. A YAML file is represented by the document
  it denotes. The spec document is the mapping from the keys of the struct tags of
  \<^verbatim>\<open>LuetSystemRepositorySerialized\<close> to values, in which a key tagged
  \<^verbatim>\<open>omitempty\<close> is absent when the field has its zero value; an absent key
  leaves the zero value in the struct. The metadata document holds the index, and the
  metadata file of one built package holds its artifact. Other bytes are a \<open>Blob\<close>.
  Unmarshalling a document of another kind is an error here.
\<close>

record spec_document =
  doc_name :: string
  doc_description :: "string option"
  doc_urls :: "string list"
  doc_priority :: "64 word"
  doc_type :: string
  doc_revision :: "64 word option"
  doc_last_update :: "string option"
  doc_treepath :: string
  doc_metapath :: string
  doc_repo_files :: "string \<rightharpoonup> LuetRepositoryFile"
  doc_verify :: bool

datatype 'p content =
  SpecYaml spec_document
| MetaYaml "'p LuetSystemRepositoryMetadata"
| ArtifactYaml "'p PackageArtifact"
| Blob string

definition yaml_Marshal :: "LuetSystemRepositorySerialized \<Rightarrow> 'p content" where
  "yaml_Marshal p = SpecYaml
     \<lparr>doc_name = ser_Name p,
      doc_description = (if ser_Description p = [] then None else Some (ser_Description p)),
      doc_urls = ser_Urls p,
      doc_priority = ser_Priority p,
      doc_type = ser_Type p,
      doc_revision = (if ser_Revision p = 0 then None else Some (ser_Revision p)),
      doc_last_update = (if ser_LastUpdate p = [] then None else Some (ser_LastUpdate p)),
      doc_treepath = ser_TreePath p,
      doc_metapath = ser_MetaPath p,
      doc_repo_files = ser_RepositoryFiles p,
      doc_verify = ser_Verify p\<rparr>"

definition yaml_Unmarshal :: "'p content \<Rightarrow> error + LuetSystemRepositorySerialized" where
  "yaml_Unmarshal data =
     (case data of
        SpecYaml d \<Rightarrow> Inr
          \<lparr>ser_Name = doc_name d,
           ser_Description = (case doc_description d of None \<Rightarrow> [] | Some s \<Rightarrow> s),
           ser_Urls = doc_urls d,
           ser_Priority = doc_priority d,
           ser_Type = doc_type d,
           ser_Revision = (case doc_revision d of None \<Rightarrow> 0 | Some n \<Rightarrow> n),
           ser_LastUpdate = (case doc_last_update d of None \<Rightarrow> [] | Some s \<Rightarrow> s),
           ser_TreePath = doc_treepath d,
           ser_MetaPath = doc_metapath d,
           ser_RepositoryFiles = doc_repo_files d,
           ser_Verify = doc_verify d\<rparr>
      | _ \<Rightarrow> Inl (Error ''yaml: not a repository document''))"

definition yaml_Unmarshal_meta :: "'p content \<Rightarrow> error + 'p LuetSystemRepositoryMetadata" where
  "yaml_Unmarshal_meta data =
     (case data of
        MetaYaml m \<Rightarrow> Inr m
      | _ \<Rightarrow> Inl (Error ''yaml: not a metadata document''))"

subsection \<open>The disk\<close>

text \<open>
  The disk maps a path to the content of the file there; a directory is the set of
  the paths below it. \<^verbatim>\<open>filepath.Join\<close> is modelled without the cleaning of the
  result.
\<close>

type_synonym 'p disk = "string \<rightharpoonup> 'p content"

definition filepath_Join :: "string \<Rightarrow> string \<Rightarrow> string" where
  "filepath_Join a b = (if a = [] then b else if b = [] then a else a @ ''/'' @ b)"

definition ioutil_ReadFile :: "'p disk \<Rightarrow> string \<Rightarrow> error + 'p content" where
  "ioutil_ReadFile d file =
     (case d file of
        None \<Rightarrow> Inl (Error (''open '' @ file @ '': no such file or directory''))
      | Some dat \<Rightarrow> Inr dat)"

definition os_RemoveAll :: "string \<Rightarrow> 'p disk \<Rightarrow> 'p disk" where
  "os_RemoveAll path d =
     (if path = [] then d
      else (\<lambda>q. if q = path \<or> prefix (path @ ''/'') q then None else d q))"

subsection \<open>Reading a spec document\<close>

text \<open>
  Modelled from the spec: \<^verbatim>\<open>config.NewLuetRepository\<close> is not in the file. The
  call sites pass name, type, description, urls and priority and two flags, which the
  descriptor of the spec stores (the flags are \<open>Enable\<close> and \<open>Cached\<close>); every
  other field of the new descriptor has the zero value of its type.
\<close>

definition NewLuetRepository ::
  "string \<Rightarrow> string \<Rightarrow> string \<Rightarrow> string list \<Rightarrow> 64 word \<Rightarrow> bool \<Rightarrow> bool \<Rightarrow> LuetRepository" where
  "NewLuetRepository name t descr urls priority enable cached =
     \<lparr>Name = name, Description = descr, Urls = urls, Type = t, Priority = priority,
      Enable = enable, Cached = cached, Authentication = Map.empty, TreePath = [],
      MetaPath = [], Revision = 0, LastUpdate = [], Verify = False\<rparr>"

text \<open>
  The database \<open>db\<close> becomes the tree of the new repository
  (\<^verbatim>\<open>tree.NewInstallerRecipe(db)\<close>).
\<close>

definition NewLuetSystemRepositoryFromYaml ::
  "'p content \<Rightarrow> 'p PackageDatabase \<Rightarrow> error + 'p LuetSystemRepository" where
  "NewLuetSystemRepositoryFromYaml data db =
     (case yaml_Unmarshal data of
        Inl err \<Rightarrow> Inl err
      | Inr p \<Rightarrow>
          let repo = NewLuetRepository (ser_Name p) (ser_Type p) (ser_Description p)
                       (ser_Urls p) (ser_Priority p) True False;
              repo = repo\<lparr>Verify := ser_Verify p\<rparr>;
              r = LuetRepository.extend repo
                    \<lparr>Index = [], BuildTree = None, Tree = db,
                     RepositoryFiles = ser_RepositoryFiles p, PushImages = False,
                     ForcePush = False, repo_imagePrefix = []\<rparr>;
              r = (if 0 <s ser_Revision p then r\<lparr>Revision := ser_Revision p\<rparr> else r);
              r = (if ser_LastUpdate p \<noteq> [] then r\<lparr>LastUpdate := ser_LastUpdate p\<rparr> else r)
          in Inr r)"

text \<open>
  \<^verbatim>\<open>ReadSpecFile\<close>; \<open>NewInMemoryDatabase\<close> is the empty database
  \<^verbatim>\<open>pkg.NewInMemoryDatabase(false)\<close> of the package database package.
\<close>

definition ReadSpecFile ::
  "'p PackageDatabase \<Rightarrow> 'p disk \<Rightarrow> string \<Rightarrow> error + 'p LuetSystemRepository" where
  "ReadSpecFile NewInMemoryDatabase d file =
     (case ioutil_ReadFile d file of
        Inl err \<Rightarrow> Inl (Wrap err (''Error reading file '' @ file))
      | Inr dat \<Rightarrow>
          (case NewLuetSystemRepositoryFromYaml dat NewInMemoryDatabase of
             Inl err \<Rightarrow> Inl (Wrap err (''Error reading repository from file '' @ file))
           | Inr repo \<Rightarrow>
               (case snd (GetRepositoryFile repo REPOFILE_TREE_KEY) of
                  Some err \<Rightarrow>
                    Inl (Error (''Invalid repository without the '' @ REPOFILE_TREE_KEY
                                @ '' key file.''))
                | None \<Rightarrow>
                    (case snd (GetRepositoryFile repo REPOFILE_META_KEY) of
                       Some err \<Rightarrow>
                         Inl (Error (''Invalid repository without the '' @ REPOFILE_META_KEY
                                     @ '' key file.''))
                     | None \<Rightarrow> Inr repo))))"

subsection \<open>Serialize and BumpRevision\<close>

text \<open>
  \<^verbatim>\<open>Serialize\<close> also replaces the index of the repository by its cleaned copy
  (\<^verbatim>\<open>CleanPath\<close>, a method of the index type): it returns the repository next to
  the metadata and the serialized struct.
\<close>

definition Serialize ::
  "('p PackageArtifact list \<Rightarrow> 'p PackageArtifact list) \<Rightarrow> 'p LuetSystemRepository \<Rightarrow>
   'p LuetSystemRepository \<times> 'p LuetSystemRepositoryMetadata \<times> LuetSystemRepositorySerialized" where
  "Serialize CleanPath r =
     (let serialized =
            \<lparr>ser_Name = Name r, ser_Description = Description r, ser_Urls = Urls r,
             ser_Priority = Priority r, ser_Type = Type r, ser_Revision = Revision r,
             ser_LastUpdate = LastUpdate r, ser_TreePath = [], ser_MetaPath = [],
             ser_RepositoryFiles = RepositoryFiles r, ser_Verify = Verify r\<rparr>;
          r = r\<lparr>Index := CleanPath (Index r)\<rparr>;
          meta = \<lparr>meta_Index = Index r\<rparr>
      in (r, meta, serialized))"

text \<open>
  \<^verbatim>\<open>BumpRevision\<close>: the file \<open>repospec\<close> is there when the disk has content at
  that path. An error leaves the repository as it was.
\<close>

definition BumpRevision ::
  "'p PackageDatabase \<Rightarrow> 'p disk \<Rightarrow> 'p LuetSystemRepository \<Rightarrow> string \<Rightarrow> bool \<Rightarrow>
   error + 'p LuetSystemRepository" where
  "BumpRevision NewInMemoryDatabase d r repospec resetRevision =
     (let res =
        (if resetRevision then Inr (r\<lparr>Revision := 0\<rparr>)
         else if d repospec \<noteq> None then
           (case ReadSpecFile NewInMemoryDatabase d repospec of
              Inl err \<Rightarrow> Inl err
            | Inr spec \<Rightarrow> Inr (r\<lparr>Revision := GetRevision spec\<rparr>))
         else Inr r)
      in case res of
           Inl err \<Rightarrow> Inl err
         | Inr r \<Rightarrow> Inr (r\<lparr>Revision := Revision r + 1\<rparr>))"

section \<open>The sync engine\<close>

subsection \<open>Collaborators\<close>

record RepoData =
  rd_Urls :: "string list"
  rd_Authentication :: "string \<rightharpoonup> string"
  rd_Verify :: bool

datatype RepositoryClient =
  LocalClient RepoData
| HttpClient RepoData
| DockerClient RepoData

text \<open>\<^verbatim>\<open>Client()\<close>; \<open>None\<close> is the nil client of an unknown repository type.\<close>

definition Client :: "'p LuetSystemRepository \<Rightarrow> RepositoryClient option" where
  "Client r =
     (if GetType r = DiskRepositoryType then
        Some (LocalClient \<lparr>rd_Urls = GetUrls r, rd_Authentication = Map.empty,
                           rd_Verify = False\<rparr>)
      else if GetType r = HttpRepositoryType then
        Some (HttpClient \<lparr>rd_Urls = GetUrls r, rd_Authentication = GetAuthentication r,
                          rd_Verify = False\<rparr>)
      else if GetType r = DockerRepositoryType then
        Some (DockerClient \<lparr>rd_Urls = GetUrls r, rd_Authentication = GetAuthentication r,
                            rd_Verify = Verify r\<rparr>)
      else None)"

text \<open>
  The artifact \<^verbatim>\<open>compiler.NewPackageArtifact(path)\<close> that \<open>Sync\<close> makes of a
  downloaded bundle in order to verify and unpack it.
\<close>

record BundleArtifact =
  artifact_Path :: string
  artifact_Checksums :: "string \<rightharpoonup> string"
  artifact_CompressionType :: string

definition NewPackageArtifact :: "string \<Rightarrow> BundleArtifact" where
  "NewPackageArtifact path =
     \<lparr>artifact_Path = path, artifact_Checksums = Map.empty, artifact_CompressionType = []\<rparr>"

definition artifact_SetChecksums :: "BundleArtifact \<Rightarrow> (string \<rightharpoonup> string) \<Rightarrow> BundleArtifact" where
  "artifact_SetChecksums a c = a\<lparr>artifact_Checksums := c\<rparr>"

definition artifact_SetCompressionType :: "BundleArtifact \<Rightarrow> string \<Rightarrow> BundleArtifact" where
  "artifact_SetCompressionType a t = a\<lparr>artifact_CompressionType := t\<rparr>"

text \<open>
  What \<open>Sync\<close> needs from outside the file. A client's \<^verbatim>\<open>DownloadFile\<close> answers
  with the path of a temporary file and the content it has put there; the temporary
  files of one call are kept apart from the disk, so their deferred removal is not
  modelled. \<^verbatim>\<open>Verify\<close> and \<^verbatim>\<open>Unpack\<close> are methods of the artifact and get the
  content of the file at the artifact's path; \<^verbatim>\<open>Unpack\<close> answers with the members
  of the archive (name and content). \<^verbatim>\<open>helpers.CopyFile\<close> answers whether the copy
  fails.
\<close>

record 'p sync_env =
  client_DownloadFile :: "RepositoryClient \<Rightarrow> string \<Rightarrow> error + string \<times> 'p content"
  GetRepoDatabaseDirPath :: "string \<Rightarrow> string"
  TempDir :: "string \<Rightarrow> error + string"
  artifact_Verify :: "BundleArtifact \<Rightarrow> 'p content \<Rightarrow> error option"
  artifact_Unpack :: "BundleArtifact \<Rightarrow> 'p content \<Rightarrow> error + (string \<times> 'p content) list"
  helpers_CopyFile :: "string \<Rightarrow> string \<Rightarrow> error option"
  reciper_Load :: "'p disk \<Rightarrow> string \<Rightarrow> error + 'p PackageDatabase"
  NewInMemoryDatabase :: "'p PackageDatabase"

text \<open>
  The calls of one \<open>Sync\<close> that reach outside: downloads, verifications with their
  outcome (\<open>True\<close> when the checksums agree), the operations that write to the disk,
  and the message of \<^verbatim>\<open>Info\<close>. The \<^verbatim>\<open>Debug\<close> and \<^verbatim>\<open>InfoC\<close> lines are left
  out.
\<close>

datatype event =
  DownloadFile_call string
| Verify_call string bool
| CopyFile_call string string
| RemoveAll_call string
| MkdirAll_call string
| Unpack_call string string
| Info_call "string list"

fun writes_disk :: "event \<Rightarrow> bool" where
  "writes_disk (CopyFile_call src dst) = True"
| "writes_disk (RemoveAll_call path) = True"
| "writes_disk (MkdirAll_call path) = True"
| "writes_disk (Unpack_call path dst) = True"
| "writes_disk (DownloadFile_call name) = False"
| "writes_disk (Verify_call path ok) = False"
| "writes_disk (Info_call msg) = False"

fun Unpack_members :: "string \<Rightarrow> (string \<times> 'p content) list \<Rightarrow> 'p disk \<Rightarrow> 'p disk" where
  "Unpack_members dst [] d = d"
| "Unpack_members dst (m # ms) d =
     Unpack_members dst ms (d(filepath_Join dst (fst m) \<mapsto> snd m))"

subsection \<open>The metadata document\<close>

text \<open>
  \<^verbatim>\<open>ReadFile\<close> of the metadata and \<^verbatim>\<open>NewLuetSystemRepositoryMetadata\<close>: with
  \<open>removeFile\<close> the file is removed (by a deferred call) once it has been read. The
  functions return the disk they leave.
\<close>

definition LuetSystemRepositoryMetadata_ReadFile ::
  "'p disk \<Rightarrow> string \<Rightarrow> bool \<Rightarrow> (error + 'p LuetSystemRepositoryMetadata) \<times> 'p disk" where
  "LuetSystemRepositoryMetadata_ReadFile d file removeFile =
     (if file = [] then (Inl (Error ''Invalid path for repository metadata''), d)
      else
        (case ioutil_ReadFile d file of
           Inl err \<Rightarrow> (Inl err, d)
         | Inr dat \<Rightarrow>
             (yaml_Unmarshal_meta dat, if removeFile then d(file := None) else d)))"

definition NewLuetSystemRepositoryMetadata ::
  "'p disk \<Rightarrow> string \<Rightarrow> bool \<Rightarrow> (error + 'p LuetSystemRepositoryMetadata) \<times> 'p disk" where
  "NewLuetSystemRepositoryMetadata d file removeFile =
     LuetSystemRepositoryMetadata_ReadFile d file removeFile"

definition ToArtifactIndex :: "'p LuetSystemRepositoryMetadata \<Rightarrow> 'p PackageArtifact list" where
  "ToArtifactIndex m = meta_Index m"

subsection \<open>Sync\<close>

text \<open>
  Lines 655 to 685: whether the cached spec makes the download unnecessary, and the two
  directories of the cache.
\<close>

definition Sync_cache ::
  "'p sync_env \<Rightarrow> 'p disk \<Rightarrow> 'p LuetSystemRepository \<Rightarrow> bool \<Rightarrow> 'p LuetSystemRepository \<Rightarrow>
   string \<Rightarrow> error + bool \<times> string \<times> string" where
  "Sync_cache env d r force repo repobasedir =
     (if Cached r then
        (let repoUpdated =
               (if \<not> force then
                  (case ReadSpecFile (NewInMemoryDatabase env) d
                          (filepath_Join repobasedir REPOSITORY_SPECFILE) of
                     Inl err \<Rightarrow> False
                   | Inr localRepo \<Rightarrow>
                       GetRevision localRepo = GetRevision repo \<and>
                       GetLastUpdate localRepo = GetLastUpdate repo)
                else False);
             treefs = (if GetTreePath r = [] then filepath_Join repobasedir ''treefs''
                       else GetTreePath r);
             metafs = (if GetMetaPath r = [] then filepath_Join repobasedir ''metafs''
                       else GetMetaPath r)
         in Inr (repoUpdated, treefs, metafs))
      else
        (case TempDir env ''treefs'' of
           Inl err \<Rightarrow> Inl (Wrap err ''Error met while creating tempdir for rootfs'')
         | Inr treefs \<Rightarrow>
             (case TempDir env ''metafs'' of
                Inl err \<Rightarrow> Inl (Wrap err ''Error met whilte creating tempdir for metafs'')
              | Inr metafs \<Rightarrow> Inr (False, treefs, metafs))))"

text \<open>
  Lines 731 to 755: the cache is replaced and the two bundles are unpacked. The result
  is the error if any, the disk, and the calls made.
\<close>

definition Sync_replace ::
  "'p sync_env \<Rightarrow> 'p LuetSystemRepository \<Rightarrow> string \<times> 'p content \<Rightarrow> string \<Rightarrow> string \<Rightarrow> string \<Rightarrow>
   BundleArtifact \<times> 'p content \<Rightarrow> BundleArtifact \<times> 'p content \<Rightarrow> 'p disk \<Rightarrow>
   error option \<times> 'p disk \<times> event list" where
  "Sync_replace env r file repobasedir treefs metafs tree meta d =
     (let dst = filepath_Join repobasedir REPOSITORY_SPECFILE;
          copied =
            (if Cached r then
               (case helpers_CopyFile env (fst file) dst of
                  Some err \<Rightarrow> Inl (Wrap err (''Error on update '' @ REPOSITORY_SPECFILE))
                | None \<Rightarrow>
                    Inr (os_RemoveAll metafs (os_RemoveAll treefs (d(dst \<mapsto> snd file))),
                         [CopyFile_call (fst file) dst, RemoveAll_call treefs,
                          RemoveAll_call metafs]))
             else Inr (d, []))
      in case copied of
           Inl err \<Rightarrow> (Some err, d, [CopyFile_call (fst file) dst])
         | Inr (d, evs) \<Rightarrow>
             (case artifact_Unpack env (fst tree) (snd tree) of
                Inl err \<Rightarrow>
                  (Some (Wrap err ''Error met while unpacking tree''), d,
                   evs @ [Unpack_call (artifact_Path (fst tree)) treefs])
              | Inr members \<Rightarrow>
                  (let d = Unpack_members treefs members d;
                       evs = evs @ [Unpack_call (artifact_Path (fst tree)) treefs,
                                    MkdirAll_call metafs,
                                    Unpack_call (artifact_Path (fst meta)) metafs]
                   in case artifact_Unpack env (fst meta) (snd meta) of
                        Inl err \<Rightarrow>
                          (Some (Wrap err ''Error met while unpacking metadata''), d, evs)
                      | Inr members \<Rightarrow> (None, Unpack_members metafs members d, evs))))"

text \<open>
  Lines 692 to 729, followed by the replacement: the two bundles are downloaded and
  verified, the tree first.
\<close>

definition Sync_update ::
  "'p sync_env \<Rightarrow> 'p LuetSystemRepository \<Rightarrow> RepositoryClient \<Rightarrow> string \<times> 'p content \<Rightarrow> string \<Rightarrow>
   string \<Rightarrow> string \<Rightarrow> LuetRepositoryFile \<Rightarrow> LuetRepositoryFile \<Rightarrow> 'p disk \<Rightarrow>
   error option \<times> 'p disk \<times> event list" where
  "Sync_update env r c file repobasedir treefs metafs treeFile metaFile d =
     (case client_DownloadFile env c (GetFileName treeFile) of
        Inl err \<Rightarrow>
          (Some (Wrap err (''While downloading '' @ GetFileName treeFile)), d,
           [DownloadFile_call (GetFileName treeFile)])
      | Inr downloadedTreeFile \<Rightarrow>
          (let treeFileArtifact = NewPackageArtifact (fst downloadedTreeFile);
               treeFileArtifact = artifact_SetChecksums treeFileArtifact (GetChecksums treeFile);
               treeFileArtifact =
                 artifact_SetCompressionType treeFileArtifact (GetCompressionType treeFile)
           in case artifact_Verify env treeFileArtifact (snd downloadedTreeFile) of
                Some err \<Rightarrow>
                  (Some (Wrap err ''Tree integrity check failure''), d,
                   [DownloadFile_call (GetFileName treeFile),
                    Verify_call (fst downloadedTreeFile) False])
              | None \<Rightarrow>
                  (case client_DownloadFile env c (GetFileName metaFile) of
                     Inl err \<Rightarrow>
                       (Some (Wrap err (''While downloading '' @ GetFileName metaFile)), d,
                        [DownloadFile_call (GetFileName treeFile),
                         Verify_call (fst downloadedTreeFile) True,
                         DownloadFile_call (GetFileName metaFile)])
                   | Inr downloadedMeta \<Rightarrow>
                       (let metaFileArtifact = NewPackageArtifact (fst downloadedMeta);
                            metaFileArtifact =
                              artifact_SetChecksums metaFileArtifact (GetChecksums metaFile);
                            metaFileArtifact =
                              artifact_SetCompressionType metaFileArtifact
                                (GetCompressionType metaFile)
                        in case artifact_Verify env metaFileArtifact (snd downloadedMeta) of
                             Some err \<Rightarrow>
                               (Some (Wrap err ''Metadata integrity check failure''), d,
                                [DownloadFile_call (GetFileName treeFile),
                                 Verify_call (fst downloadedTreeFile) True,
                                 DownloadFile_call (GetFileName metaFile),
                                 Verify_call (fst downloadedMeta) False])
                           | None \<Rightarrow>
                               (case Sync_replace env r file repobasedir treefs metafs
                                       (treeFileArtifact, snd downloadedTreeFile)
                                       (metaFileArtifact, snd downloadedMeta) d of
                                  (res, d, evs) \<Rightarrow>
                                    (res, d,
                                     [DownloadFile_call (GetFileName treeFile),
                                      Verify_call (fst downloadedTreeFile) True,
                                      DownloadFile_call (GetFileName metaFile),
                                      Verify_call (fst downloadedMeta) True] @ evs))))))"

text \<open>
  Lines 770 to 806: the index and the tree are loaded from the cache and the fields the
  caller configured are written over the ones of the downloaded descriptor.
\<close>

definition Sync_load ::
  "'p sync_env \<Rightarrow> 'p LuetSystemRepository \<Rightarrow> 'p LuetSystemRepository \<Rightarrow> string \<Rightarrow> string \<Rightarrow>
   'p disk \<Rightarrow> error + 'p LuetSystemRepository" where
  "Sync_load env r repo treefs metafs d =
     (case fst (NewLuetSystemRepositoryMetadata d
                  (filepath_Join metafs REPOSITORY_METAFILE) False) of
        Inl err \<Rightarrow> Inl (Wrap err (''While processing '' @ REPOSITORY_METAFILE))
      | Inr meta \<Rightarrow>
          (let repo = SetIndex repo (ToArtifactIndex meta) in
           case reciper_Load env d treefs of
             Inl err \<Rightarrow> Inl (Wrap err ''Error met while unpacking rootfs'')
           | Inr reciper \<Rightarrow>
               (let repo = SetTree repo reciper;
                    repo = SetTreePath repo treefs;
                    repo = SetUrls repo (GetUrls r);
                    repo = SetAuthentication repo (GetAuthentication r);
                    repo = SetType repo (GetType r);
                    repo = SetPriority repo (GetPriority r);
                    repo = SetName repo (GetName r);
                    repo = SetVerify repo (GetVerify r)
                in Inr repo)))"

text \<open>
  \<open>Sync\<close> returns the descriptor or the error, the disk it leaves and the calls it
  made, in their order.
\<close>

definition Sync ::
  "'p sync_env \<Rightarrow> 'p LuetSystemRepository \<Rightarrow> bool \<Rightarrow> 'p disk \<Rightarrow>
   (error + 'p LuetSystemRepository) \<times> 'p disk \<times> event list" where
  "Sync env r force d =
     (case Client r of
        None \<Rightarrow> (Inl (Error ''no client could be generated from repository''), d, [])
      | Some c \<Rightarrow>
          (case client_DownloadFile env c REPOSITORY_SPECFILE of
             Inl err \<Rightarrow>
               (Inl (Wrap err (''While downloading '' @ REPOSITORY_SPECFILE)), d,
                [DownloadFile_call REPOSITORY_SPECFILE])
           | Inr file \<Rightarrow>
               (let repobasedir = GetRepoDatabaseDirPath env (GetName r) in
                case ReadSpecFile (NewInMemoryDatabase env) (d(fst file \<mapsto> snd file))
                       (fst file) of
                  Inl err \<Rightarrow> (Inl err, d, [DownloadFile_call REPOSITORY_SPECFILE])
                | Inr repo \<Rightarrow>
                    (case Sync_cache env d r force repo repobasedir of
                       Inl err \<Rightarrow> (Inl err, d, [DownloadFile_call REPOSITORY_SPECFILE])
                     | Inr (repoUpdated, treefs, metafs) \<Rightarrow>
                         (let treeFile = fst (GetRepositoryFile repo REPOFILE_TREE_KEY);
                              metaFile = fst (GetRepositoryFile repo REPOFILE_META_KEY)
                          in if \<not> repoUpdated then
                               (case Sync_update env r c file repobasedir treefs metafs
                                       treeFile metaFile d of
                                  (Some err, d, evs) \<Rightarrow>
                                    (Inl err, d, DownloadFile_call REPOSITORY_SPECFILE # evs)
                                | (None, d, evs) \<Rightarrow>
                                    (Sync_load env r repo treefs metafs d, d,
                                     DownloadFile_call REPOSITORY_SPECFILE # evs))
                             else
                               (Sync_load env r repo treefs metafs d, d,
                                [DownloadFile_call REPOSITORY_SPECFILE,
                                 Info_call [''Repository'', GetName repo,
                                            ''is already up to date.'']]))))))"

section \<open>The registry generator\<close>

subsection \<open>Collaborators and state\<close>

text \<open>
  What the generator needs from outside the file, \<open>'b\<close> being the state of the
  compiler backend and of the registry behind it: the clock, the temporary
  directories (the \<open>n\<close>-th call of \<^verbatim>\<open>TempDir\<close> in a run gets \<open>n\<close>, so that
  two calls may answer with different directories), the four operations of the backend, the methods of an artifact
  (\<^verbatim>\<open>GenerateFinalImage\<close> with the path of the artifact, the image name, the
  backend and the flag of the call; \<^verbatim>\<open>Compress\<close>, which answers with the artifact
  at its final path; \<^verbatim>\<open>Hash\<close>), the saving of a tree, the helpers, the two
  compression constants of the compiler package, \<^verbatim>\<open>ImageID\<close> of a package, the
  path functions of the library (\<open>path_Base\<close> stands for \<^verbatim>\<open>path.Base\<close>,
  \<^verbatim>\<open>filepath.Base\<close> and \<^verbatim>\<open>GetFileName\<close> of an artifact), and the files
  \<^verbatim>\<open>filepath.Walk\<close> visits below a path, each with its name.
\<close>

record ('p, 'b) generator_env =
  time_Now :: string
  system_TempDir :: "nat \<Rightarrow> string \<Rightarrow> error + string"
  ImageAvailable :: "'b \<Rightarrow> string \<Rightarrow> bool"
  Push :: "'b \<Rightarrow> string \<Rightarrow> error + 'b"
  DownloadImage :: "'b \<Rightarrow> string \<Rightarrow> error + 'b"
  ExtractRootfs :: "'b \<Rightarrow> string \<Rightarrow> string \<Rightarrow> error + (string \<times> 'p content) list"
  GenerateFinalImage :: "string \<Rightarrow> string \<Rightarrow> 'b \<Rightarrow> bool \<Rightarrow> error + 'b"
  artifact_Compress :: "BundleArtifact \<Rightarrow> string \<Rightarrow> error + BundleArtifact"
  artifact_Hash :: "BundleArtifact \<Rightarrow> error + (string \<rightharpoonup> string)"
  CreateArtifactForFile :: "string \<Rightarrow> error + BundleArtifact"
  tree_Save :: "'p PackageDatabase \<Rightarrow> string \<Rightarrow> error option"
  helpers_Tar :: "string \<Rightarrow> string \<Rightarrow> error option"
  ioutil_WriteFile :: "string \<Rightarrow> error option"
  index_CleanPath :: "'p PackageArtifact list \<Rightarrow> 'p PackageArtifact list"
  compiler_GZip :: string
  compiler_None :: string
  ImageID :: "'p \<Rightarrow> string"
  path_Base :: "string \<Rightarrow> string"
  filepath_Dir :: "string \<Rightarrow> string"
  filepath_Walk :: "string \<Rightarrow> (string \<times> string) list"
  pkg_NewInMemoryDatabase :: "'p PackageDatabase"

text \<open>
  The calls that reach the backend, the event bus and the spec file. A build and a push
  carry what \<^verbatim>\<open>ImageAvailable\<close> reports for the image at the moment of the call.
\<close>

datatype 'p generator_call =
  GenerateFinalImage_call string bool
| Push_call string bool
| DownloadImage_call string
| ExtractRootfs_call string string
| Publish_call string "'p LuetSystemRepository" string
| WriteFile_call string "'p content"

text \<open>
  The state the generator works on: the backend, the disk, the repository (which the
  Go code changes through the pointer \<^verbatim>\<open>r\<close>), the calls made so far and the
  number of temporary directories asked for so far.
\<close>

record ('p, 'b) generator_state =
  st_backend :: 'b
  st_disk :: "'p disk"
  st_repo :: "'p LuetSystemRepository"
  st_calls :: "'p generator_call list"
  st_tmp :: nat

text \<open>
  A step returns a value or an error, and the state. \<open>gbind\<close> is
  \<^verbatim>\<open>x, err := step; if err != nil { return err }\<close>, \<open>gwrap\<close> wraps the error of a
  step (\<^verbatim>\<open>errors.Wrap\<close>), and \<open>defer_RemoveAll\<close> is
  \<^verbatim>\<open>defer os.RemoveAll(path)\<close> around the rest of a function.
\<close>

definition gbind ::
  "('s \<Rightarrow> (error + 'a) \<times> 's) \<Rightarrow> ('a \<Rightarrow> 's \<Rightarrow> (error + 'c) \<times> 's) \<Rightarrow> 's \<Rightarrow> (error + 'c) \<times> 's" where
  "gbind m f s = (case m s of (Inl err, s') \<Rightarrow> (Inl err, s') | (Inr x, s') \<Rightarrow> f x s')"

definition gwrap :: "string \<Rightarrow> ('s \<Rightarrow> (error + 'a) \<times> 's) \<Rightarrow> 's \<Rightarrow> (error + 'a) \<times> 's" where
  "gwrap msg m s = (case m s of (Inl err, s') \<Rightarrow> (Inl (Wrap err msg), s') | (Inr x, s') \<Rightarrow> (Inr x, s'))"

definition greturn :: "'a \<Rightarrow> 's \<Rightarrow> (error + 'a) \<times> 's" where
  "greturn x s = (Inr x, s)"

definition gresult :: "error + 'a \<Rightarrow> 's \<Rightarrow> (error + 'a) \<times> 's" where
  "gresult res s = (res, s)"

definition gcheck :: "error option \<Rightarrow> 's \<Rightarrow> (error + unit) \<times> 's" where
  "gcheck res s = (case res of Some err \<Rightarrow> (Inl err, s) | None \<Rightarrow> (Inr (), s))"

definition defer_RemoveAll ::
  "string \<Rightarrow> (('p, 'b) generator_state \<Rightarrow> (error + 'a) \<times> ('p, 'b) generator_state) \<Rightarrow>
   ('p, 'b) generator_state \<Rightarrow> (error + 'a) \<times> ('p, 'b) generator_state" where
  "defer_RemoveAll path m s =
     (case m s of (res, s') \<Rightarrow> (res, s'\<lparr>st_disk := os_RemoveAll path (st_disk s')\<rparr>))"

definition TempDir_call ::
  "('p, 'b) generator_env \<Rightarrow> string \<Rightarrow>
   ('p, 'b) generator_state \<Rightarrow> (error + string) \<times> ('p, 'b) generator_state" where
  "TempDir_call env name s =
     (system_TempDir env (st_tmp s) name, s\<lparr>st_tmp := Suc (st_tmp s)\<rparr>)"

definition WriteFile ::
  "('p, 'b) generator_env \<Rightarrow> string \<Rightarrow> 'p content \<Rightarrow>
   ('p, 'b) generator_state \<Rightarrow> (error + unit) \<times> ('p, 'b) generator_state" where
  "WriteFile env path data s =
     (case ioutil_WriteFile env path of
        Some err \<Rightarrow> (Inl err, s)
      | None \<Rightarrow>
          (Inr (), s\<lparr>st_disk := (st_disk s)(path \<mapsto> data),
                     st_calls := st_calls s @ [WriteFile_call path data]\<rparr>))"

subsection \<open>Repository files\<close>

definition NewDefaultTreeRepositoryFile :: "('p, 'b) generator_env \<Rightarrow> LuetRepositoryFile" where
  "NewDefaultTreeRepositoryFile env =
     \<lparr>FileName = ''tree.tar'', CompressionType = compiler_GZip env, Checksums = Map.empty\<rparr>"

definition NewDefaultCompilerTreeRepositoryFile ::
  "('p, 'b) generator_env \<Rightarrow> LuetRepositoryFile" where
  "NewDefaultCompilerTreeRepositoryFile env =
     \<lparr>FileName = ''compilertree.tar'', CompressionType = compiler_GZip env,
      Checksums = Map.empty\<rparr>"

definition NewDefaultMetaRepositoryFile :: "('p, 'b) generator_env \<Rightarrow> LuetRepositoryFile" where
  "NewDefaultMetaRepositoryFile env =
     \<lparr>FileName = REPOSITORY_METAFILE @ ''.tar'', CompressionType = compiler_None env,
      Checksums = Map.empty\<rparr>"

text \<open>
  \<^verbatim>\<open>AddRepositoryFile\<close>: the entry of the manifest (the default one when the key is
  new) names the archive; after compression and hashing the entry gets the final file
  name and the checksums.
\<close>

definition AddRepositoryFile ::
  "('p, 'b) generator_env \<Rightarrow> string \<Rightarrow> string \<Rightarrow> string \<Rightarrow> LuetRepositoryFile \<Rightarrow>
   ('p, 'b) generator_state \<Rightarrow> (error + BundleArtifact) \<times> ('p, 'b) generator_state" where
  "AddRepositoryFile env src fileKey repositoryRoot defaults s =
     (let found = GetRepositoryFile (st_repo s) fileKey;
          treeFile = (if snd found \<noteq> None then defaults else fst found);
          s = (if snd found \<noteq> None
               then s\<lparr>st_repo := SetRepositoryFile (st_repo s) fileKey treeFile\<rparr> else s);
          a = NewPackageArtifact (filepath_Join repositoryRoot (GetFileName treeFile));
          a = artifact_SetCompressionType a (GetCompressionType treeFile)
      in case artifact_Compress env a src of
           Inl err \<Rightarrow> (Inl (Wrap err ''Error met while creating package archive''), s)
         | Inr a \<Rightarrow>
             (let treeFile = SetFileName treeFile (path_Base env (artifact_Path a)) in
              case artifact_Hash env a of
                Inl err \<Rightarrow> (Inl (Wrap err ''Failed generating checksums for tree''), s)
              | Inr sums \<Rightarrow>
                  (let a = artifact_SetChecksums a sums;
                       treeFile = SetChecksums treeFile (artifact_Checksums a);
                       treeFile = SetFileName treeFile (path_Base env (artifact_Path a))
                   in (Inr a, s\<lparr>st_repo := SetRepositoryFile (st_repo s) fileKey treeFile\<rparr>))))"

text \<open>
  \<^verbatim>\<open>AddTree\<close> as the generator calls it, with the default entry as its fourth
  argument (the declaration in \<^verbatim>\<open>repository.go\<close> takes three and uses
  \<open>NewDefaultTreeRepositoryFile\<close>).
\<close>

definition AddTree ::
  "('p, 'b) generator_env \<Rightarrow> 'p PackageDatabase \<Rightarrow> string \<Rightarrow> string \<Rightarrow> LuetRepositoryFile \<Rightarrow>
   ('p, 'b) generator_state \<Rightarrow> (error + BundleArtifact) \<times> ('p, 'b) generator_state" where
  "AddTree env t dst key defaults =
     gbind (gwrap ''Error met while creating tempdir for archive''
              (TempDir_call env ''archive''))
       (\<lambda>archive. defer_RemoveAll archive
          (gbind (gwrap ''Error met while saving the tree'' (gcheck (tree_Save env t archive)))
             (\<lambda>u. gwrap ''Error met while adding archive to repository''
                     (AddRepositoryFile env archive key dst defaults))))"

text \<open>
  \<^verbatim>\<open>AddMetadata\<close>. \<^verbatim>\<open>serialized.RepositoryFiles\<close> is the map of the repository
  itself, not a copy: the entry that \<open>AddRepositoryFile\<close> writes afterwards is in the
  document that is marshalled.
\<close>

definition AddMetadata ::
  "('p, 'b) generator_env \<Rightarrow> string \<Rightarrow> string \<Rightarrow>
   ('p, 'b) generator_state \<Rightarrow> (error + BundleArtifact) \<times> ('p, 'b) generator_state" where
  "AddMetadata env repospec dst s =
     (case Serialize (index_CleanPath env) (st_repo s) of
        (r, meta, serialized) \<Rightarrow>
          gbind (gwrap ''Error met while creating tempdir for metadata''
                   (TempDir_call env ''metadata''))
            (\<lambda>metaTmpDir. defer_RemoveAll metaTmpDir
               (let repoMetaSpec = filepath_Join metaTmpDir REPOSITORY_METAFILE in
                gbind (WriteFile env repoMetaSpec (MetaYaml meta))
                  (\<lambda>u. gbind (gwrap ''Error met while adding archive to repository''
                                 (AddRepositoryFile env metaTmpDir REPOFILE_META_KEY dst
                                    (NewDefaultMetaRepositoryFile env)))
                     (\<lambda>a s.
                        gbind (WriteFile env repospec
                                 (yaml_Marshal
                                    (serialized\<lparr>ser_RepositoryFiles :=
                                                   RepositoryFiles (st_repo s)\<rparr>)))
                          (\<lambda>u. greturn a) s))))
            (s\<lparr>st_repo := r\<rparr>))"

subsection \<open>Images\<close>

record dockerRepositoryGenerator =
  gen_imagePrefix :: string
  gen_imagePush :: bool
  gen_force :: bool

definition pushImage ::
  "('p, 'b) generator_env \<Rightarrow> string \<Rightarrow> bool \<Rightarrow>
   ('p, 'b) generator_state \<Rightarrow> (error + unit) \<times> ('p, 'b) generator_state" where
  "pushImage env imageName force s =
     (if ImageAvailable env (st_backend s) imageName \<and> \<not> force then (Inr (), s)
      else
        (let s' = s\<lparr>st_calls := st_calls s @
                       [Push_call imageName (ImageAvailable env (st_backend s) imageName)]\<rparr>
         in case Push env (st_backend s) imageName of
              Inl err \<Rightarrow> (Inl err, s')
            | Inr b \<Rightarrow> (Inr (), s'\<lparr>st_backend := b\<rparr>)))"

text \<open>A call of \<^verbatim>\<open>GenerateFinalImage\<close> of the artifact at \<open>path\<close>.\<close>

definition build_image ::
  "('p, 'b) generator_env \<Rightarrow> string \<Rightarrow> string \<Rightarrow> bool \<Rightarrow>
   ('p, 'b) generator_state \<Rightarrow> (error + unit) \<times> ('p, 'b) generator_state" where
  "build_image env path imageName keepPerms s =
     (let s' = s\<lparr>st_calls := st_calls s @
                    [GenerateFinalImage_call imageName (ImageAvailable env (st_backend s) imageName)]\<rparr>
      in case GenerateFinalImage env path imageName (st_backend s) keepPerms of
           Inl err \<Rightarrow> (Inl err, s')
         | Inr b \<Rightarrow> (Inr (), s'\<lparr>st_backend := b\<rparr>))"

text \<open>
  The function that \<open>generatePackageImages\<close> hands to \<^verbatim>\<open>filepath.Walk\<close>, for one
  file; \<open>art\<close> is the list of artifacts collected so far.
\<close>

definition generatePackageImages_ff ::
  "('p, 'b) generator_env \<Rightarrow> string \<Rightarrow> 'p PackageDatabase \<Rightarrow> bool \<Rightarrow> bool \<Rightarrow>
   string \<times> string \<Rightarrow> 'p PackageArtifact list \<Rightarrow>
   ('p, 'b) generator_state \<Rightarrow> (error + 'p PackageArtifact list) \<times> ('p, 'b) generator_state" where
  "generatePackageImages_ff env imagePrefix db imagePush force entry art s =
     (let currentpath = fst entry; name = snd entry in
      if \<not> suffix ''.metadata.yaml'' name then (Inr art, s)
      else
        (case ioutil_ReadFile (st_disk s) currentpath of
           Inl err \<Rightarrow> (Inl (Wrap err (''Error reading file '' @ currentpath)), s)
         | Inr dat \<Rightarrow>
             (case dat of
                ArtifactYaml a \<Rightarrow>
                  (let a = a\<lparr>Path := filepath_Join (filepath_Dir env currentpath)
                                        (path_Base env (Path a))\<rparr>
                   in case FindPackage db (CompileSpec_Package a) of
                        Inl notfound \<Rightarrow> (Inr art, s)
                      | Inr found \<Rightarrow>
                          (let packageImage =
                                 imagePrefix @ '':'' @ ImageID env (CompileSpec_Package a)
                           in gbind
                                (if imagePush \<and> ImageAvailable env (st_backend s) packageImage
                                    \<and> \<not> force
                                 then greturn ()
                                 else gwrap (''Failed generating metadata tree'' @ packageImage)
                                        (build_image env (Path a) packageImage True))
                                (\<lambda>u. gbind
                                   (if imagePush
                                    then gwrap (''Failed while pushing image: '' @ [CHR 0x27] @ packageImage
                                           @ [CHR 0x27])
                                           (pushImage env packageImage force)
                                    else greturn ())
                                   (\<lambda>u. greturn (art @ [a]))) s))
              | _ \<Rightarrow>
                  (Inl (Wrap (Error ''yaml: not an artifact document'')
                          (''Error reading yaml '' @ currentpath)), s))))"

fun generatePackageImages_walk ::
  "('p, 'b) generator_env \<Rightarrow> string \<Rightarrow> 'p PackageDatabase \<Rightarrow> bool \<Rightarrow> bool \<Rightarrow>
   (string \<times> string) list \<Rightarrow> 'p PackageArtifact list \<Rightarrow>
   ('p, 'b) generator_state \<Rightarrow> (error + 'p PackageArtifact list) \<times> ('p, 'b) generator_state" where
  "generatePackageImages_walk env imagePrefix db imagePush force [] art s = (Inr art, s)"
| "generatePackageImages_walk env imagePrefix db imagePush force (entry # entries) art s =
     (case generatePackageImages_ff env imagePrefix db imagePush force entry art s of
        (Inl err, s') \<Rightarrow> (Inl err, s')
      | (Inr art', s') \<Rightarrow>
          generatePackageImages_walk env imagePrefix db imagePush force entries art' s')"

definition generatePackageImages ::
  "('p, 'b) generator_env \<Rightarrow> string \<Rightarrow> string \<Rightarrow> 'p PackageDatabase \<Rightarrow> bool \<Rightarrow> bool \<Rightarrow>
   ('p, 'b) generator_state \<Rightarrow> (error + 'p PackageArtifact list) \<times> ('p, 'b) generator_state" where
  "generatePackageImages env imagePrefix path db imagePush force s =
     generatePackageImages_walk env imagePrefix db imagePush force (filepath_Walk env path) [] s"

definition Initialize ::
  "('p, 'b) generator_env \<Rightarrow> dockerRepositoryGenerator \<Rightarrow> string \<Rightarrow> 'p PackageDatabase \<Rightarrow>
   ('p, 'b) generator_state \<Rightarrow> (error + 'p PackageArtifact list) \<times> ('p, 'b) generator_state" where
  "Initialize env l path db =
     generatePackageImages env (gen_imagePrefix l) path db (gen_imagePush l) (gen_force l)"

definition pushFileFromArtifact ::
  "('p, 'b) generator_env \<Rightarrow> BundleArtifact \<Rightarrow> string \<Rightarrow>
   ('p, 'b) generator_state \<Rightarrow> (error + unit) \<times> ('p, 'b) generator_state" where
  "pushFileFromArtifact env a imageTree =
     gbind (gwrap (''Failed generating metadata tree '' @ imageTree)
              (build_image env (artifact_Path a) imageTree False))
       (\<lambda>u s. if PushImages (st_repo s)
               then gwrap (''Failed while pushing image: '' @ [CHR 0x27] @ imageTree @ [CHR 0x27])
                      (pushImage env imageTree True) s
               else (Inr (), s))"

definition pushRepoMetadata ::
  "('p, 'b) generator_env \<Rightarrow> dockerRepositoryGenerator \<Rightarrow> string \<Rightarrow>
   ('p, 'b) generator_state \<Rightarrow> (error + unit) \<times> ('p, 'b) generator_state" where
  "pushRepoMetadata env d repospec =
     gbind (gwrap ''Error met while creating tempdir for metadata''
              (TempDir_call env ''metadata''))
       (\<lambda>metaDir. defer_RemoveAll metaDir
          (let tempRepoFile = filepath_Join metaDir (REPOSITORY_SPECFILE @ ''.tar'') in
           gbind (gwrap ''Error met while archiving repository file''
                    (gcheck (helpers_Tar env repospec tempRepoFile)))
             (\<lambda>u. let a = NewPackageArtifact tempRepoFile;
                       imageRepo = gen_imagePrefix d @ '':'' @ REPOSITORY_SPECFILE
                   in gwrap ''while pushing file from artifact''
                        (pushFileFromArtifact env a imageRepo))))"

definition pushImageFromArtifact ::
  "('p, 'b) generator_env \<Rightarrow> dockerRepositoryGenerator \<Rightarrow> BundleArtifact \<Rightarrow>
   ('p, 'b) generator_state \<Rightarrow> (error + unit) \<times> ('p, 'b) generator_state" where
  "pushImageFromArtifact env d a =
     gbind (gwrap ''failed generating checksums for tree''
              (gresult (CreateArtifactForFile env (artifact_Path a))))
       (\<lambda>treeArchive.
          let imageTree = gen_imagePrefix d @ '':'' @ path_Base env (artifact_Path a)
          in pushFileFromArtifact env treeArchive imageTree)"

subsection \<open>Generate\<close>

text \<open>
  The step of \<open>Generate\<close> that fetches the spec published before: when the image of
  the spec exists it is downloaded and its files are put below \<open>repoTemp\<close>.
\<close>

definition Generate_fetch ::
  "('p, 'b) generator_env \<Rightarrow> string \<Rightarrow> string \<Rightarrow>
   ('p, 'b) generator_state \<Rightarrow> (error + unit) \<times> ('p, 'b) generator_state" where
  "Generate_fetch env imageRepository repoTemp s =
     (if ImageAvailable env (st_backend s) imageRepository then
        (let s1 = s\<lparr>st_calls := st_calls s @ [DownloadImage_call imageRepository]\<rparr> in
         case DownloadImage env (st_backend s) imageRepository of
           Inl err \<Rightarrow> (Inl (Wrap err (''while downloading '' @ [CHR 0x27] @ imageRepository
                                 @ [CHR 0x27])), s1)
         | Inr b \<Rightarrow>
             (let s2 = s1\<lparr>st_backend := b,
                           st_calls := st_calls s1 @ [ExtractRootfs_call imageRepository repoTemp]\<rparr>
              in case ExtractRootfs env b imageRepository repoTemp of
                   Inl err \<Rightarrow> (Inl (Wrap err (''while extracting '' @ [CHR 0x27] @ imageRepository
                                         @ [CHR 0x27])), s2)
                 | Inr members \<Rightarrow>
                     (Inr (), s2\<lparr>st_disk := Unpack_members repoTemp members (st_disk s2)\<rparr>)))
      else (Inr (), s))"

definition Generate_BumpRevision ::
  "('p, 'b) generator_env \<Rightarrow> string \<Rightarrow> bool \<Rightarrow>
   ('p, 'b) generator_state \<Rightarrow> (error + unit) \<times> ('p, 'b) generator_state" where
  "Generate_BumpRevision env repospec resetRevision s =
     (case BumpRevision (pkg_NewInMemoryDatabase env) (st_disk s) (st_repo s) repospec resetRevision of
        Inl err \<Rightarrow> (Inl err, s)
      | Inr r \<Rightarrow> (Inr (), s\<lparr>st_repo := r\<rparr>))"

definition Publish ::
  "string \<Rightarrow> string \<Rightarrow> ('p, 'b) generator_state \<Rightarrow> (error + unit) \<times> ('p, 'b) generator_state" where
  "Publish event path s = (Inr (), s\<lparr>st_calls := st_calls s @ [Publish_call event (st_repo s) path]\<rparr>)"

text \<open>
  \<open>Generate\<close>, in three parts: the two trees are archived and pushed
  (\<open>Generate_trees\<close>), then the metadata and the spec document
  (\<open>Generate_metadata\<close>); \<open>Generate\<close> itself starts with the revision. A build
  tree that is nil makes the Go code panic at the call of \<^verbatim>\<open>Save\<close>; the model
  returns an error there.
\<close>

definition Generate_trees ::
  "('p, 'b) generator_env \<Rightarrow> dockerRepositoryGenerator \<Rightarrow> string \<Rightarrow>
   ('p, 'b) generator_state \<Rightarrow> (error + unit) \<times> ('p, 'b) generator_state" where
  "Generate_trees env d repoTemp =
     gbind (gwrap ''error met while adding runtime tree to repository''
              (\<lambda>s. AddTree env (GetTree (st_repo s)) repoTemp REPOFILE_TREE_KEY
                      (NewDefaultTreeRepositoryFile env) s))
       (\<lambda>a. gbind (gwrap ''error met while pushing runtime tree''
                      (pushImageFromArtifact env d a))
       (\<lambda>u. gbind (gwrap ''error met while adding compiler tree to repository''
                      (\<lambda>s. case BuildTree (st_repo s) of
                              None \<Rightarrow> (Inl (Error ''panic: nil tree''), s)
                            | Some t \<Rightarrow>
                                AddTree env t repoTemp REPOFILE_COMPILER_TREE_KEY
                                  (NewDefaultCompilerTreeRepositoryFile env) s))
       (\<lambda>a. gwrap ''error met while pushing compiler tree''
               (pushImageFromArtifact env d a))))"

definition Generate_metadata ::
  "('p, 'b) generator_env \<Rightarrow> dockerRepositoryGenerator \<Rightarrow> string \<Rightarrow> string \<Rightarrow>
   ('p, 'b) generator_state \<Rightarrow> (error + unit) \<times> ('p, 'b) generator_state" where
  "Generate_metadata env d imagePrefix repospec =
     gbind (gwrap ''error met while creating tempdir for metadata''
              (TempDir_call env ''metadata''))
       (\<lambda>metaDir. defer_RemoveAll metaDir
          (gbind (gwrap ''failed adding Metadata file to repository''
                    (AddMetadata env repospec metaDir))
          (\<lambda>a. gbind (gwrap ''error met while pushing docker image from artifact''
                         (pushImageFromArtifact env d a))
          (\<lambda>u. gbind (gwrap ''while pushing repository metadata tree''
                         (pushRepoMetadata env d repospec))
          (\<lambda>u. Publish ''repository.post.build'' imagePrefix)))))"

definition Generate ::
  "('p, 'b) generator_env \<Rightarrow> dockerRepositoryGenerator \<Rightarrow> string \<Rightarrow> bool \<Rightarrow>
   ('p, 'b) generator_state \<Rightarrow> (error + unit) \<times> ('p, 'b) generator_state" where
  "Generate env d imagePrefix resetRevision s =
     (let imageRepository = imagePrefix @ '':'' @ REPOSITORY_SPECFILE;
          s = s\<lparr>st_repo := (st_repo s)\<lparr>LastUpdate := time_Now env\<rparr>\<rparr>
      in gbind (gwrap ''error met while creating tempdir for repository''
                  (TempDir_call env ''repo''))
           (\<lambda>repoTemp. defer_RemoveAll repoTemp
              (gbind (Generate_fetch env imageRepository repoTemp)
              (\<lambda>u. let repospec = filepath_Join repoTemp REPOSITORY_SPECFILE in
               gbind (Generate_BumpRevision env repospec resetRevision)
              (\<lambda>u. gbind (Publish ''repository.pre.build'' imageRepository)
              (\<lambda>u. gbind (Generate_trees env d repoTemp)
              (\<lambda>u. Generate_metadata env d imagePrefix repospec)))))) s)"

section \<open>Examples\<close>

text \<open>
  A descriptor with a negative revision; a remote repository at revision 2 with a tree
  bundle and a metadata bundle, whose checksum is the content itself; the collaborators
  of a sync from it, where \<open>tree_bytes\<close> is what the download of the tree bundle
  delivers; a cached local repository and its cache; and the spec document of the remote
  repository without its metadata entry.
\<close>

definition example_negative_revision :: "string LuetSystemRepository" where
  "example_negative_revision = (example_repo ''A'' 1 (example_db [] Inr))\<lparr>Revision := - 1\<rparr>"

definition example_spec :: spec_document where
  "example_spec =
     \<lparr>doc_name = ''upstream'', doc_description = None, doc_urls = [''https://mirror.example/repo''],
      doc_priority = 50, doc_type = HttpRepositoryType, doc_revision = Some 2,
      doc_last_update = Some ''1600000000'', doc_treepath = [], doc_metapath = [],
      doc_repo_files =
        [REPOFILE_TREE_KEY \<mapsto>
           \<lparr>FileName = ''tree.tar.gz'', CompressionType = ''gzip'',
            Checksums = [''sha256'' \<mapsto> ''tree bundle'']\<rparr>,
         REPOFILE_META_KEY \<mapsto>
           \<lparr>FileName = ''repository.meta.yaml.tar'', CompressionType = ''none'',
            Checksums = [''sha256'' \<mapsto> ''meta bundle'']\<rparr>],
      doc_verify = True\<rparr>"

definition example_env :: "spec_document \<Rightarrow> string \<Rightarrow> string sync_env" where
  "example_env spec tree_bytes =
     \<lparr>client_DownloadFile = (\<lambda>c name.
        if name = REPOSITORY_SPECFILE then Inr (''/tmp/spec'', SpecYaml spec)
        else if name = ''tree.tar.gz'' then Inr (''/tmp/tree'', Blob tree_bytes)
        else if name = ''repository.meta.yaml.tar'' then Inr (''/tmp/meta'', Blob ''meta bundle'')
        else Inl (Error ''not found'')),
      GetRepoDatabaseDirPath = (\<lambda>name. ''/cache/'' @ name),
      TempDir = (\<lambda>name. Inr (''/tmp/'' @ name)),
      artifact_Verify = (\<lambda>a dat.
        if Some dat = map_option Blob (artifact_Checksums a ''sha256'') then None
        else Some (Error ''checksum mismatch'')),
      artifact_Unpack = (\<lambda>a dat.
        if dat = Blob ''meta bundle''
        then Inr [(REPOSITORY_METAFILE, MetaYaml \<lparr>meta_Index = []\<rparr>)]
        else Inr [(''foo/definition.yaml'', Blob ''foo-1.0'')]),
      helpers_CopyFile = (\<lambda>src dst. None),
      reciper_Load = (\<lambda>d path. Inr (example_db [''foo-1.0''] Inr)),
      NewInMemoryDatabase = example_db [] Inr\<rparr>"

definition example_local :: "string LuetSystemRepository" where
  "example_local =
     (example_repo ''local'' 1 (example_db [] Inr))
       \<lparr>Urls := [''/mnt/repo''], Cached := True\<rparr>"

definition example_cache :: "string disk" where
  "example_cache =
     [''/cache/local/repository.yaml'' \<mapsto> SpecYaml example_spec,
      ''/cache/local/metafs/repository.meta.yaml'' \<mapsto> MetaYaml \<lparr>meta_Index = []\<rparr>,
      ''/cache/local/treefs/foo/definition.yaml'' \<mapsto> Blob ''foo-0.9'']"

definition example_spec_without_meta :: spec_document where
  "example_spec_without_meta =
     example_spec\<lparr>doc_repo_files :=
       [REPOFILE_TREE_KEY \<mapsto>
          \<lparr>FileName = ''tree.tar.gz'', CompressionType = ''gzip'',
           Checksums = [''sha256'' \<mapsto> ''tree bundle'']\<rparr>]\<rparr>"

(* DEFINITIONS END *)

section \<open>Properties of the aggregator\<close>

subsection \<open>The sort\<close>

lemma length_settle: "length (settle x zs) = Suc (length zs)"
  by (induction zs) auto

lemma set_settle: "set (settle x zs) = insert x (set zs)"
  by (induction zs) auto

lemma mset_settle: "mset (settle x zs) = add_mset x (mset zs)"
  by (induction zs) auto

lemma descending_settle:
  "sorted_wrt (\<lambda>a b. GetPriority b \<le>s GetPriority a) zs \<Longrightarrow>
   sorted_wrt (\<lambda>a b. GetPriority b \<le>s GetPriority a) (settle x zs)"
  by (induction zs) (auto simp: set_settle word_sless_alt word_sle_eq)

lemma insertionSort_inner_settle:
  "j < length r \<Longrightarrow>
   insertionSort_inner r j = rev (settle (r ! j) (rev (take j r))) @ drop (Suc j) r"
proof (induction j arbitrary: r)
  case 0
  then show ?case by (cases r) auto
next
  case (Suc j)
  let ?x = "r ! Suc j" and ?y = "r ! j"
  have split: "take (Suc j) r = take j r @ [?y]"
    using Suc.prems by (simp add: take_Suc_conv_app_nth)
  show ?case
  proof (cases "Less r (Suc j) j")
    case True
    let ?r' = "Swap r (Suc j) j"
    have len: "j < length ?r'" using Suc.prems by (simp add: Swap_def)
    have a: "?r' ! j = ?x" using Suc.prems by (simp add: Swap_def)
    have b: "take j ?r' = take j r" by (simp add: Swap_def)
    have c: "drop (Suc j) ?r' = ?y # drop (Suc (Suc j)) r"
      using Suc.prems
      by (simp add: Swap_def drop_update_swap Cons_nth_drop_Suc [symmetric] upd_conv_take_nth_drop)
    show ?thesis
      using True Suc.IH [OF len] by (simp add: a b c split Less_def)
  next
    case False
    have "take (Suc (Suc j)) r = take j r @ [?y, ?x]"
      using Suc.prems by (simp add: take_Suc_conv_app_nth)
    then have "take j r @ [?y, ?x] @ drop (Suc (Suc j)) r = r"
      by (metis append_assoc append_take_drop_id)
    then show ?thesis
      using False by (simp add: split Less_def)
  qed
qed

lemma mset_insertionSort_inner:
  assumes "j < length r"
  shows "mset (insertionSort_inner r j) = mset r"
proof -
  have "mset r = mset (take j r @ r ! j # drop (Suc j) r)"
    using assms id_take_nth_drop by metis
  then show ?thesis
    using assms by (simp add: insertionSort_inner_settle mset_settle)
qed

lemma length_insertionSort_inner: "length (insertionSort_inner r j) = length r"
  by (induction j arbitrary: r) (auto simp: Swap_def)

lemma ascending_insertionSort_inner:
  assumes "j < length r"
    and "sorted_wrt (\<lambda>a b. GetPriority a \<le>s GetPriority b) (take j r)"
  shows "sorted_wrt (\<lambda>a b. GetPriority a \<le>s GetPriority b)
           (take (Suc j) (insertionSort_inner r j))"
proof -
  have "sorted_wrt (\<lambda>a b. GetPriority b \<le>s GetPriority a) (rev (take j r))"
    using assms(2) by (simp add: sorted_wrt_rev)
  then have "sorted_wrt (\<lambda>a b. GetPriority a \<le>s GetPriority b)
               (rev (settle (r ! j) (rev (take j r))))"
    by (simp add: sorted_wrt_rev descending_settle)
  moreover have "length (rev (settle (r ! j) (rev (take j r)))) = Suc j"
    using assms(1) by (simp add: length_settle)
  ultimately show ?thesis
    using assms(1) by (simp add: insertionSort_inner_settle)
qed

lemma mset_insertionSort:
  "b \<le> length r \<Longrightarrow> mset (insertionSort r i b) = mset r"
proof (induction r i b rule: insertionSort.induct)
  case (1 data i b)
  show ?case
  proof (cases "i < b")
    case True
    then have "i < length data" using "1.prems" by simp
    then show ?thesis
      using True "1.IH" "1.prems"
      by (subst insertionSort.simps)
         (simp add: mset_insertionSort_inner length_insertionSort_inner)
  next
    case False
    then show ?thesis by (subst insertionSort.simps) simp
  qed
qed

lemma ascending_insertionSort:
  "i \<le> b \<Longrightarrow> b \<le> length r \<Longrightarrow>
   sorted_wrt (\<lambda>a b. GetPriority a \<le>s GetPriority b) (take i r) \<Longrightarrow>
   sorted_wrt (\<lambda>a b. GetPriority a \<le>s GetPriority b) (take b (insertionSort r i b))"
proof (induction r i b rule: insertionSort.induct)
  case (1 data i b)
  show ?case
  proof (cases "i < b")
    case True
    then have lt: "i < length data" using "1.prems" by simp
    have "sorted_wrt (\<lambda>a b. GetPriority a \<le>s GetPriority b)
            (take (Suc i) (insertionSort_inner data i))"
      using lt "1.prems"(3) by (rule ascending_insertionSort_inner)
    then show ?thesis
      using True "1.IH" "1.prems"
      by (subst insertionSort.simps) (simp add: length_insertionSort_inner)
  next
    case False
    then show ?thesis using "1.prems" by (subst insertionSort.simps) simp
  qed
qed

lemma mset_sort_Sort: "mset (sort_Sort r) = mset r"
  by (simp add: sort_Sort_def Len_def mset_insertionSort)

lemma ascending_sort_Sort:
  "sorted_wrt (\<lambda>a b. GetPriority a \<le>s GetPriority b) (sort_Sort r)"
proof (cases r)
  case Nil
  then show ?thesis by (simp add: sort_Sort_def Len_def insertionSort.simps)
next
  case (Cons x xs)
  then have "sorted_wrt (\<lambda>a b. GetPriority a \<le>s GetPriority b)
               (take (length r) (insertionSort r 1 (length r)))"
    by (intro ascending_insertionSort) simp_all
  moreover have "length (insertionSort r 1 (length r)) = length r"
    using mset_insertionSort [of "length r" r 1] by (metis order_refl size_mset)
  ultimately show ?thesis
    by (simp add: sort_Sort_def Len_def)
qed

text \<open>
  C10: \<open>PackageMatches\<close>, \<open>ResolveSelectors\<close> and \<open>SearchPackages\<close> sort the
  caller's collection in place: the collection the caller sees after the call is in
  ascending order of priority value and is a permutation of what it was before.
\<close>

theorem aggregator_calls_sort_the_collection:
  "sorted_wrt (\<lambda>a b. GetPriority a \<le>s GetPriority b) (fst (PackageMatches re p)) \<and>
   mset (fst (PackageMatches re p)) = mset re \<and>
   sorted_wrt (\<lambda>a b. GetPriority a \<le>s GetPriority b)
     (fst (ResolveSelectors IsSelector re p)) \<and>
   mset (fst (ResolveSelectors IsSelector re p)) = mset re \<and>
   sorted_wrt (\<lambda>a b. GetPriority a \<le>s GetPriority b)
     (fst (SearchPackages regexp_Compile Matches re s t)) \<and>
   mset (fst (SearchPackages regexp_Compile Matches re s t)) = mset re"
  by (simp add: PackageMatches_def ResolveSelectors_def SearchPackages_def Let_def
      ascending_sort_Sort mset_sort_Sort)

subsection \<open>ResolveSelectors\<close>

lemma ResolveSelectors_repos_non_selector:
  "\<not> IsSelector pack \<Longrightarrow>
   ResolveSelectors_repos IsSelector re pack matches = matches @ replicate (length re) pack"
  by (induction re arbitrary: matches) (auto simp: replicate_app_Cons_same)

text \<open>
  C1: a requested package that is no selector is to appear once in the result. With two
  repositories the package \<open>bar-2.0\<close>, which is no selector, comes back twice.
\<close>

theorem ResolveSelectors_repeats_non_selector:
  "snd (ResolveSelectors (\<lambda>p. False)
      [example_repo ''A'' 1 (example_db [] (\<lambda>p. Inl (Error ''none''))),
       example_repo ''B'' 10 (example_db [] (\<lambda>p. Inl (Error ''none'')))]
      [''bar-2.0'']) = [''bar-2.0'', ''bar-2.0'']"
  by (simp add: ResolveSelectors_def sort_Sort_def Len_def insertionSort.simps Less_def
      Swap_def GetPriority_def example_repo_def)

subsection \<open>World\<close>

text \<open>
  C6: the definition of a shared fingerprint is to come from the repository of lowest
  priority value. \<open>World\<close> walks the collection in the order it finds it: with B
  (priority 10) standing before A (priority 1), the definition of B comes back.
\<close>

theorem World_of_unsorted_collection:
  "World fst
      [example_repo ''B'' 10 (example_db [(''foo-1.0'', ''definition of B'')] Inr),
       example_repo ''A'' 1 (example_db [(''foo-1.0'', ''definition of A'')] Inr)]
    = [(''foo-1.0'', ''definition of B'')]"
  by (simp add: World_def World_cache_def example_repo_def example_db_def GetTree_def)

section \<open>Properties of the spec document\<close>

text \<open>
  C4, as amended: for every descriptor whose revision is not negative, serializing it
  (\<open>Serialize\<close>, then the YAML document) and parsing the document with
  \<open>NewLuetSystemRepositoryFromYaml\<close> gives a descriptor with the same name, urls,
  priority, type, revision, last update, repository files and verify flag.
\<close>

theorem round_trip_keeps_fields:
  assumes "0 \<le>s Revision r"
  shows "(\<exists>r'. NewLuetSystemRepositoryFromYaml
            (yaml_Marshal (snd (snd (Serialize CleanPath r)))) db = Inr r' \<and>
         Name r' = Name r \<and> Urls r' = Urls r \<and> Priority r' = Priority r \<and>
         Type r' = Type r \<and> Revision r' = Revision r \<and> LastUpdate r' = LastUpdate r \<and>
         RepositoryFiles r' = RepositoryFiles r \<and> Verify r' = Verify r)"
proof -
  have "Revision r = 0" if "\<not> 0 < sint (Revision r)"
  proof -
    have "sint (Revision r) = 0" using that assms by (simp add: word_sle_eq)
    then show ?thesis by (metis signed_eq_0_iff)
  qed
  then show ?thesis
    by (auto simp: Serialize_def yaml_Marshal_def yaml_Unmarshal_def
        NewLuetSystemRepositoryFromYaml_def NewLuetRepository_def Let_def
        LuetRepository.defs word_sless_alt)
qed

theorem round_trip_keeps_fields_witness:
  "0 \<le>s (3 :: 64 word) \<and>
   (\<exists>r'. NewLuetSystemRepositoryFromYaml
            (yaml_Marshal (snd (snd (Serialize id (example_local\<lparr>Revision := 3\<rparr>)))))
            (example_db [] Inr :: string PackageDatabase) = Inr r' \<and>
         Name r' = ''local'' \<and> Revision r' = 3)"
proof -
  have h: "0 \<le>s Revision (example_local\<lparr>Revision := 3\<rparr>)"
    by (simp add: word_sle_eq)
  from round_trip_keeps_fields [OF h, of id "example_db [] Inr"] h show ?thesis
    by (auto simp: example_local_def example_repo_def)
qed

text \<open>
  The claim as it stands fails for a negative revision: the parser keeps the revision of
  the document only when it is positive, and the descriptor comes back with revision 0.
\<close>

theorem round_trip_loses_negative_revision:
  "map_sum id Revision
     (NewLuetSystemRepositoryFromYaml
        (yaml_Marshal (snd (snd (Serialize id example_negative_revision))))
        (example_db [] Inr :: string PackageDatabase)) = Inr 0 \<and> Revision example_negative_revision \<noteq> 0"
  by (simp add: Serialize_def yaml_Marshal_def yaml_Unmarshal_def example_negative_revision_def
      NewLuetSystemRepositoryFromYaml_def NewLuetRepository_def Let_def example_repo_def
      LuetRepository.defs)

section \<open>Properties of the sync engine\<close>

lemmas example_defs = example_env_def example_spec_def example_local_def example_cache_def
  example_repo_def example_db_def

lemmas sync_defs = Sync_def Sync_cache_def Sync_update_def Sync_replace_def Sync_load_def
  ReadSpecFile_def NewLuetSystemRepositoryFromYaml_def NewLuetRepository_def yaml_Unmarshal_def
  yaml_Unmarshal_meta_def ioutil_ReadFile_def GetRepositoryFile_def Client_def
  NewLuetSystemRepositoryMetadata_def LuetSystemRepositoryMetadata_ReadFile_def
  ToArtifactIndex_def NewPackageArtifact_def artifact_SetChecksums_def
  artifact_SetCompressionType_def filepath_Join_def os_RemoveAll_def
  GetName_def GetType_def GetVerify_def GetUrls_def GetAuthentication_def GetTreePath_def
  GetMetaPath_def GetRevision_def GetLastUpdate_def GetPriority_def GetFileName_def
  GetChecksums_def GetCompressionType_def SetPriority_def SetType_def SetVerify_def SetName_def
  SetUrls_def SetAuthentication_def SetTreePath_def SetTree_def SetIndex_def
  REPOSITORY_METAFILE_def REPOSITORY_SPECFILE_def REPOFILE_TREE_KEY_def REPOFILE_META_KEY_def
  DiskRepositoryType_def HttpRepositoryType_def DockerRepositoryType_def
  LuetRepository.defs Let_def word_sless_alt

subsection \<open>The mandatory entries of a spec document\<close>

lemma ReadSpecFile_Inr_iff:
  "ReadSpecFile db d file = Inr repo \<longleftrightarrow>
     (\<exists>dat. d file = Some dat \<and> NewLuetSystemRepositoryFromYaml dat db = Inr repo \<and>
            RepositoryFiles repo REPOFILE_TREE_KEY \<noteq> None \<and>
            RepositoryFiles repo REPOFILE_META_KEY \<noteq> None)"
  by (auto simp: ReadSpecFile_def ioutil_ReadFile_def GetRepositoryFile_def
      split: option.splits sum.splits)

text \<open>
  C9: \<open>ReadSpecFile\<close> returns a descriptor exactly when the file holds a document
  whose descriptor has an entry for the tree key and one for the meta key. When the
  document lacks one of them, \<open>ReadSpecFile\<close> returns an error, and a \<open>Sync\<close>
  that downloads this document returns an error after the download of the spec file
  alone, with the disk as it was.
\<close>

theorem spec_document_needs_tree_and_meta:
  assumes "NewLuetSystemRepositoryFromYaml dat (NewInMemoryDatabase env) = Inr parsed"
    and "RepositoryFiles parsed REPOFILE_TREE_KEY = None \<or>
         RepositoryFiles parsed REPOFILE_META_KEY = None"
    and "d path = Some dat"
    and "Client r = Some c"
    and "client_DownloadFile env c REPOSITORY_SPECFILE = Inr (tmp, dat)"
  shows "(ReadSpecFile db' d' path' = Inr repo \<longleftrightarrow>
            (\<exists>dat'. d' path' = Some dat' \<and>
                    NewLuetSystemRepositoryFromYaml dat' db' = Inr repo \<and>
                    RepositoryFiles repo REPOFILE_TREE_KEY \<noteq> None \<and>
                    RepositoryFiles repo REPOFILE_META_KEY \<noteq> None)) \<and>
         (\<exists>err. ReadSpecFile (NewInMemoryDatabase env) d path = Inl err) \<and>
         (\<exists>err. Sync env r force d0 = (Inl err, d0, [DownloadFile_call REPOSITORY_SPECFILE]))"
proof -
  have bad: "\<exists>err. ReadSpecFile (NewInMemoryDatabase env) dd p = Inl err"
    if "dd p = Some dat" for dd p
    using that assms(1,2)
    by (auto simp: ReadSpecFile_def ioutil_ReadFile_def GetRepositoryFile_def
        split: option.splits)
  have "\<exists>err. ReadSpecFile (NewInMemoryDatabase env) (d0(tmp \<mapsto> dat)) tmp = Inl err"
    by (rule bad) simp
  then have "\<exists>err. Sync env r force d0 = (Inl err, d0, [DownloadFile_call REPOSITORY_SPECFILE])"
    using assms(4,5) by (auto simp: Sync_def Let_def)
  then show ?thesis
    using bad [of d path, OF assms(3)] by (simp add: ReadSpecFile_Inr_iff)
qed

theorem spec_document_needs_tree_and_meta_witness:
  "(\<exists>err. ReadSpecFile (example_db [] Inr :: string PackageDatabase)
            [''/cache/local/repository.yaml'' \<mapsto> SpecYaml example_spec_without_meta]
            ''/cache/local/repository.yaml'' = Inl err) \<and>
   (\<exists>err. Sync (example_env example_spec_without_meta ''tree bundle'') example_local True
            example_cache
          = (Inl err, example_cache, [DownloadFile_call REPOSITORY_SPECFILE]))"
proof -
  let ?env = "example_env example_spec_without_meta ''tree bundle''"
  let ?dat = "SpecYaml example_spec_without_meta :: string content"
  have "map_sum id (\<lambda>r. (RepositoryFiles r REPOFILE_META_KEY))
          (NewLuetSystemRepositoryFromYaml ?dat (NewInMemoryDatabase ?env)) = Inr None"
    by (simp add: sync_defs example_defs example_spec_without_meta_def)
  then obtain parsed where
    h1: "NewLuetSystemRepositoryFromYaml ?dat (NewInMemoryDatabase ?env) = Inr parsed"
    and "RepositoryFiles parsed REPOFILE_META_KEY = None"
    by (cases "NewLuetSystemRepositoryFromYaml ?dat (NewInMemoryDatabase ?env)") auto
  then have h2: "RepositoryFiles parsed REPOFILE_TREE_KEY = None \<or>
            RepositoryFiles parsed REPOFILE_META_KEY = None"
    by simp
  have h3: "[''/cache/local/repository.yaml'' \<mapsto> ?dat] ''/cache/local/repository.yaml''
              = Some ?dat"
    by simp
  have h4: "Client example_local =
              Some (LocalClient \<lparr>rd_Urls = [''/mnt/repo''], rd_Authentication = Map.empty,
                                 rd_Verify = False\<rparr>)"
    by (simp add: Client_def GetType_def GetUrls_def example_defs DiskRepositoryType_def)
  have h5: "client_DownloadFile ?env
              (LocalClient \<lparr>rd_Urls = [''/mnt/repo''], rd_Authentication = Map.empty,
                             rd_Verify = False\<rparr>) REPOSITORY_SPECFILE
            = Inr (''/tmp/spec'', ?dat)"
    by (simp add: example_env_def)
  have e: "NewInMemoryDatabase ?env = example_db [] Inr"
    by (simp add: example_env_def)
  from spec_document_needs_tree_and_meta
         [where d = "[''/cache/local/repository.yaml'' \<mapsto> ?dat]"
            and path = "''/cache/local/repository.yaml''" and force = True
            and ?d0.0 = example_cache and db' = "example_db [] Inr" and d' = example_cache
            and path' = "[]" and repo = example_local, OF h1 h2 h3 h4 h5]
  show ?thesis unfolding e by simp
qed

subsection \<open>The integrity gate\<close>

lemma Sync_replace_no_Verify_call:
  "Sync_replace env r specfile repobasedir treefs metafs tree meta d = (res, d', evs) \<Longrightarrow>
   Verify_call path ok \<notin> set evs"
  by (auto simp: Sync_replace_def Let_def split: option.splits sum.splits prod.splits if_splits)

lemma Sync_update_Verify_failed:
  assumes "Verify_call path False \<in> set (snd (snd (Sync_update env r c file repobasedir treefs metafs treeFile metaFile d)))"
  shows "\<exists>e. Sync_update env r c file repobasedir treefs metafs treeFile metaFile d =
            (Some (Wrap e ''Tree integrity check failure''), d,
             [DownloadFile_call (GetFileName treeFile), Verify_call path False]) \<or>
           (\<exists>path'. Sync_update env r c file repobasedir treefs metafs treeFile metaFile d =
            (Some (Wrap e ''Metadata integrity check failure''), d,
             [DownloadFile_call (GetFileName treeFile), Verify_call path' True,
              DownloadFile_call (GetFileName metaFile), Verify_call path False]))"
  using assms
  by (auto simp: Sync_update_def Let_def dest: Sync_replace_no_Verify_call
      split: option.splits sum.splits prod.splits if_splits)

text \<open>
  C2: when the verification of a downloaded bundle fails during a \<open>Sync\<close>, the
  call returns the integrity error of the tree or of the metadata, the disk is the one
  the call started with, and none of the calls made writes to the disk.
\<close>

theorem Sync_integrity_failure_keeps_cache:
  assumes "Verify_call path False \<in> set (snd (snd (Sync env r force d)))"
  shows "(\<exists>e. fst (Sync env r force d) = Inl (Wrap e ''Tree integrity check failure'') \<or>
              fst (Sync env r force d) = Inl (Wrap e ''Metadata integrity check failure'')) \<and>
         fst (snd (Sync env r force d)) = d \<and>
         list_all (\<lambda>e. \<not> writes_disk e) (snd (snd (Sync env r force d)))"
proof -
  obtain c specfile repo repoUpdated treefs metafs where
    c: "Client r = Some c" and
    f: "client_DownloadFile env c REPOSITORY_SPECFILE = Inr specfile" and
    rd: "ReadSpecFile (NewInMemoryDatabase env) (d(fst specfile \<mapsto> snd specfile)) (fst specfile) = Inr repo" and
    sc: "Sync_cache env d r force repo (GetRepoDatabaseDirPath env (GetName r)) = Inr (repoUpdated, treefs, metafs)" and
    nu: "\<not> repoUpdated"
    using assms
    by (auto simp: Sync_def Let_def split: option.splits sum.splits prod.splits if_splits)
  let ?u = "Sync_update env r c specfile (GetRepoDatabaseDirPath env (GetName r)) treefs metafs
              (fst (GetRepositoryFile repo REPOFILE_TREE_KEY))
              (fst (GetRepositoryFile repo REPOFILE_META_KEY)) d"
  have "Verify_call path False \<in> set (snd (snd ?u))"
    using assms c f rd sc nu
    by (auto simp: Sync_def Let_def split: option.splits sum.splits prod.splits if_splits)
  from Sync_update_Verify_failed [OF this] show ?thesis
    using c f rd sc nu by (auto simp: Sync_def Let_def)
qed

theorem Sync_integrity_failure_keeps_cache_witness:
  "Verify_call ''/tmp/tree'' False \<in>
     set (snd (snd (Sync (example_env example_spec ''tree bund1e'') example_local True example_cache))) \<and>
   (\<exists>e. fst (Sync (example_env example_spec ''tree bund1e'') example_local True example_cache)
          = Inl (Wrap e ''Tree integrity check failure'')) \<and>
   fst (snd (Sync (example_env example_spec ''tree bund1e'') example_local True example_cache))
     = example_cache"
proof -
  have h: "Verify_call ''/tmp/tree'' False \<in>
     set (snd (snd (Sync (example_env example_spec ''tree bund1e'') example_local True example_cache)))"
    by (simp add: sync_defs example_defs)
  have "fst (Sync (example_env example_spec ''tree bund1e'') example_local True example_cache)
          \<noteq> Inl (Wrap e ''Metadata integrity check failure'')" for e
    by (simp add: sync_defs example_defs)
  with Sync_integrity_failure_keeps_cache [OF h] h show ?thesis by blast
qed

subsection \<open>The short circuit\<close>

text \<open>
  C5: for a cached repository and \<open>force = False\<close>, when the cached spec and the
  downloaded spec have the same revision and the same last update, \<open>Sync\<close> downloads
  the spec file and nothing else, reports that the repository is up to date, and leaves
  the disk as it was.
\<close>

theorem Sync_up_to_date_short_circuit:
  assumes "Cached r" and "\<not> force" and "Client r = Some c"
    and "client_DownloadFile env c REPOSITORY_SPECFILE = Inr specfile"
    and "ReadSpecFile (NewInMemoryDatabase env) (d(fst specfile \<mapsto> snd specfile))
           (fst specfile) = Inr repo"
    and "ReadSpecFile (NewInMemoryDatabase env) d
           (filepath_Join (GetRepoDatabaseDirPath env (GetName r)) REPOSITORY_SPECFILE)
           = Inr localRepo"
    and "GetRevision localRepo = GetRevision repo"
    and "GetLastUpdate localRepo = GetLastUpdate repo"
  shows "snd (Sync env r force d) =
           (d, [DownloadFile_call REPOSITORY_SPECFILE,
                Info_call [''Repository'', GetName repo, ''is already up to date.'']])"
  using assms by (simp add: Sync_def Sync_cache_def Let_def)

theorem Sync_up_to_date_short_circuit_witness:
  "Cached example_local \<and>
   snd (Sync (example_env example_spec ''tree bundle'') example_local False example_cache) =
     (example_cache,
      [DownloadFile_call REPOSITORY_SPECFILE,
       Info_call [''Repository'', ''upstream'', ''is already up to date.'']])"
proof -
  let ?env = "example_env example_spec ''tree bundle''"
  have h1: "Cached example_local" by (simp add: example_defs)
  have h3: "Client example_local =
              Some (LocalClient \<lparr>rd_Urls = [''/mnt/repo''], rd_Authentication = Map.empty,
                                 rd_Verify = False\<rparr>)"
    by (simp add: Client_def GetType_def GetUrls_def example_defs DiskRepositoryType_def)
  have h4: "client_DownloadFile ?env
              (LocalClient \<lparr>rd_Urls = [''/mnt/repo''], rd_Authentication = Map.empty,
                             rd_Verify = False\<rparr>) REPOSITORY_SPECFILE
            = Inr (''/tmp/spec'', SpecYaml example_spec)"
    by (simp add: example_env_def)
  have "map_sum id (\<lambda>r. (GetRevision r, GetLastUpdate r, GetName r))
          (ReadSpecFile (NewInMemoryDatabase ?env)
             (example_cache(''/tmp/spec'' \<mapsto> SpecYaml example_spec)) ''/tmp/spec'')
        = Inr (2, ''1600000000'', ''upstream'')"
    by (simp add: sync_defs example_defs)
  then obtain repo where
    h5': "ReadSpecFile (NewInMemoryDatabase ?env)
            (example_cache(''/tmp/spec'' \<mapsto> SpecYaml example_spec)) ''/tmp/spec'' = Inr repo"
    and r: "GetRevision repo = 2" "GetLastUpdate repo = ''1600000000''"
    and n: "GetName repo = ''upstream''"
    by (cases "ReadSpecFile (NewInMemoryDatabase ?env)
                 (example_cache(''/tmp/spec'' \<mapsto> SpecYaml example_spec)) ''/tmp/spec''") auto
  have h5: "ReadSpecFile (NewInMemoryDatabase ?env)
           (example_cache(fst (''/tmp/spec'', SpecYaml example_spec) \<mapsto>
                          snd (''/tmp/spec'', SpecYaml example_spec)))
           (fst (''/tmp/spec'', SpecYaml example_spec)) = Inr repo"
    using h5' by simp
  have "map_sum id (\<lambda>r. (GetRevision r, GetLastUpdate r))
          (ReadSpecFile (NewInMemoryDatabase ?env) example_cache
             (filepath_Join (GetRepoDatabaseDirPath ?env (GetName example_local))
                REPOSITORY_SPECFILE))
        = Inr (2, ''1600000000'')"
    by (simp add: sync_defs example_defs)
  then obtain localRepo where
    h6: "ReadSpecFile (NewInMemoryDatabase ?env) example_cache
           (filepath_Join (GetRepoDatabaseDirPath ?env (GetName example_local))
              REPOSITORY_SPECFILE) = Inr localRepo"
    and l: "GetRevision localRepo = 2" "GetLastUpdate localRepo = ''1600000000''"
    by (cases "ReadSpecFile (NewInMemoryDatabase ?env) example_cache
           (filepath_Join (GetRepoDatabaseDirPath ?env (GetName example_local))
              REPOSITORY_SPECFILE)") auto
  have h7: "GetRevision localRepo = GetRevision repo"
    and h8: "GetLastUpdate localRepo = GetLastUpdate repo"
    using r l by simp_all
  have h2: "\<not> False" by simp
  from Sync_up_to_date_short_circuit [OF h1 h2 h3 h4 h5 h6 h7 h8] h1 n show ?thesis
    by simp
qed

subsection \<open>The fields of the caller\<close>

lemma Sync_load_fields:
  "Sync_load env r repo treefs metafs d = Inr repo' \<Longrightarrow>
   Urls repo' = Urls r \<and> Authentication repo' = Authentication r \<and> Type repo' = Type r \<and>
   Priority repo' = Priority r \<and> Name repo' = Name r \<and> Verify repo' = Verify r"
  by (auto simp: Sync_load_def Let_def SetTree_def SetTreePath_def SetUrls_def
      SetAuthentication_def SetType_def SetPriority_def SetName_def SetVerify_def SetIndex_def
      GetUrls_def GetAuthentication_def GetType_def GetPriority_def GetName_def GetVerify_def
      split: sum.splits)

lemma Sync_Inr_load:
  "fst (Sync env r force d) = Inr repo' \<Longrightarrow>
   \<exists>repo treefs metafs d'. Sync_load env r repo treefs metafs d' = Inr repo'"
  by (auto simp: Sync_def Let_def split: option.splits sum.splits prod.splits if_splits)

text \<open>
  C8: the descriptor a successful \<open>Sync\<close> returns has the urls, authentication,
  type, priority, name and verify flag of the descriptor it was called on, whatever the
  downloaded spec document says.
\<close>

theorem Sync_keeps_local_fields:
  "fst (Sync env r force d) = Inr repo \<Longrightarrow>
   Urls repo = Urls r \<and> Authentication repo = Authentication r \<and> Type repo = Type r \<and>
   Priority repo = Priority r \<and> Name repo = Name r \<and> Verify repo = Verify r"
  using Sync_Inr_load Sync_load_fields by blast

theorem Sync_keeps_local_fields_witness:
  "\<exists>repo. fst (Sync (example_env example_spec ''tree bundle'') example_local True example_cache)
            = Inr repo \<and>
          Urls repo = [''/mnt/repo''] \<and> Type repo = ''disk'' \<and> Priority repo = 1 \<and>
          Name repo = ''local'' \<and> Verify repo = False"
proof -
  have "\<exists>repo. fst (Sync (example_env example_spec ''tree bundle'') example_local True
                      example_cache) = Inr repo"
    by (simp add: sync_defs example_defs)
  then obtain repo where
    h: "fst (Sync (example_env example_spec ''tree bundle'') example_local True example_cache)
          = Inr repo" ..
  from Sync_keeps_local_fields [OF h] h show ?thesis
    by (simp add: example_local_def example_repo_def DiskRepositoryType_def)
qed

end
